theory Spec2Isabelle
  imports Complex_Main "HOL-Library.Sublist" "HOL-Library.Log_Nat"
begin

section \<open>Data model\<close>

text \<open>
  The repository holds two variants of one trading bot: the class \<open>Trader\<close> of
  \<open>trader.py\<close> and the procedural module \<open>main.py\<close>. Both are embedded here.
  Methods of the class carry the prefix \<open>Trader_\<close> (an Isabelle name cannot start
  with an underscore); functions of \<open>main.py\<close> keep their names.

  A price is a finite float64 value, given as the real number it stands for. The two
  means of \<open>make_decision\<close> are computed as numpy computes them, in float64 with
  rounding to nearest, ties to even, overflow to an infinity and NaN (section Signal
  engine), because the decision is a comparison of the two rounded results. The
  products of the sizing and the durations of the sleeps are exact reals.
\<close>

datatype OrderSide = BUY | SELL

datatype OrderType = MARKET

datatype TimeInForce = DAY

datatype py_error = ValueError | APIError

text \<open>The keyword arguments handed to \<open>MarketOrderRequest\<close>; a key that the code does
  not put into \<open>request_params\<close> is \<open>None\<close>.\<close>

record order_request =
  req_symbol :: string
  req_side :: OrderSide
  req_type :: OrderType
  req_time_in_force :: TimeInForce
  req_notional :: "real option"
  req_qty :: "real option"

text \<open>The order object of the brokerage: an opaque id and the status the code compares
  with the string \<open>filled\<close>.\<close>

record order =
  order_id :: nat
  status :: string

record position =
  pos_symbol :: string
  pos_qty :: real

text \<open>One row of the trade log, without its first column (the wall-clock time of the
  write), which no operation reads back.\<close>

record trade_record =
  tr_symbol :: string
  tr_amount :: "real option"
  tr_trade_type :: string
  tr_side :: OrderSide
  tr_status :: string

datatype ledger_line = HeaderLine string | RecordLine trade_record

text \<open>A wall-clock reading in the zone America/New\_York. The date is kept as its
  proleptic ordinal (Python's \<open>date.toordinal()\<close>, day 1 a Monday), on which Python
  itself defines \<open>weekday()\<close> and the addition of whole days. Arithmetic between two
  readings of the same zone is wall-clock arithmetic in Python, as it is here.\<close>

record datetime =
  ordinal :: nat
  hour :: nat
  minute :: nat
  second :: nat
  microsecond :: nat

text \<open>The calls made to the outside world, in the order they are made.\<close>

datatype event =
    SubmitOrder order_request
  | Sleep real
  | GetOrderById nat
  | CancelOrderById nat
  | CancelOrders

text \<open>The mutable world: the directories and files the trade log touches, and the
  trace of calls.\<close>

record world =
  dirs :: "string set"
  files :: "string \<Rightarrow> ledger_line list option"
  calls :: "event list"

text \<open>What the outside world answers during one pass of the scheduler loop: the clock
  reading, the closing prices of the two windows, the account's cash, the positions,
  the brokerage's answer to \<open>submit_order\<close> (\<open>Inl\<close> when it raises) and the status it
  reports at the k-th call of \<open>get_order_by_id\<close> for the monitored order
  (k counted from 0; \<open>Inl\<close> when the call raises), its answer to
  \<open>cancel_order_by_id\<close> (\<open>Some\<close> error when the call raises, as for an order that
  can no longer be cancelled), the coin of \<open>random.choice\<close> and the answer of
  \<open>get_position\<close> (\<open>main.py\<close> only). A \<open>get_order_by_id\<close> that returns gives the
  order of the id asked for.\<close>

record env =
  now :: datetime
  closing_5d :: "real list"
  closing_20d :: "real list"
  cash :: real
  get_all_positions :: "position list"
  submit_order :: "order_request \<Rightarrow> py_error + order"
  get_order_by_id :: "nat \<Rightarrow> py_error + string"
  cancel_order_by_id :: "nat \<Rightarrow> py_error option"
  random_choice :: bool
  get_position :: "string \<Rightarrow> position option"

text \<open>The attributes of a \<open>Trader\<close> object that its methods read.\<close>

record Trader =
  symbol :: string
  max_wait :: int
  quick_test :: bool

section \<open>Signal engine\<close>

text \<open>A float64 value: NaN, an infinity, or a finite number. The two zeros are one
  number here; no comparison tells them apart.\<close>

datatype npfloat = NaN | NegInf | Num real | PosInf

text \<open>Rounding of a real to an integer, to nearest, ties to even.\<close>

definition round_half_even :: "real \<Rightarrow> int" where
  "round_half_even y =
     (let f = \<lfloor>y\<rfloor>; d = y - of_int f
      in if d < 1 / 2 then f else if 1 / 2 < d then f + 1 else if even f then f else f + 1)"

text \<open>The exponent \<open>e\<close> of the binade of a positive real \<open>a\<close>, \<open>2 ^ e \<le> a < 2 ^ (e + 1)\<close>,
  but not below that of the smallest normal number, so that the subnormal numbers
  share the spacing of the lowest binade.\<close>

definition f64_exponent :: "real \<Rightarrow> int" where
  "f64_exponent a =
     max (- 1022) (if 1 \<le> a then bitlen \<lfloor>a\<rfloor> - 1 else - bitlen (\<lceil>1 / a\<rceil> - 1))"

text \<open>The float64 nearest to a real (IEEE 754 binary64, round to nearest, ties to even):
  a multiple of the spacing \<open>2 ^ (e - 52)\<close> of its binade, and an infinity when the
  rounded magnitude reaches \<open>2 ^ 1024\<close>.\<close>

definition f64_round :: "real \<Rightarrow> npfloat" where
  "f64_round x =
     (if x = 0 then Num 0
      else let a = \<bar>x\<bar>;
               ulp = 2 powi (f64_exponent a - 52);
               r = of_int (round_half_even (a / ulp)) * ulp
           in if 2 ^ 1024 \<le> r then (if 0 < x then PosInf else NegInf)
              else Num (if 0 < x then r else - r))"

text \<open>Addition of two float64 values, and division of one by a count.\<close>

fun f64_add :: "npfloat \<Rightarrow> npfloat \<Rightarrow> npfloat" where
  "f64_add (Num a) (Num b) = f64_round (a + b)"
| "f64_add NaN y = NaN"
| "f64_add x NaN = NaN"
| "f64_add PosInf NegInf = NaN"
| "f64_add NegInf PosInf = NaN"
| "f64_add PosInf y = PosInf"
| "f64_add x PosInf = PosInf"
| "f64_add NegInf y = NegInf"
| "f64_add x NegInf = NegInf"

fun f64_div :: "npfloat \<Rightarrow> nat \<Rightarrow> npfloat" where
  "f64_div (Num a) n =
     (if n = 0 then (if a = 0 then NaN else if 0 < a then PosInf else NegInf)
      else f64_round (a / real n))"
| "f64_div x n = x"

text \<open>The sum of numpy's \<open>add.reduce\<close> over a float64 array, which \<open>np.mean\<close> calls:
  fewer than 8 elements are added from left to right; up to 128 elements are added
  into 8 accumulators, element \<open>8 * q + j\<close> into accumulator \<open>j\<close>, the accumulators are
  added in pairs and the elements left over after the last full group of 8 are added
  one by one; a longer array is split at half its length, rounded down to a multiple
  of 8, and the sums of the two parts are added. Every addition rounds. The result is
  added to the initial value 0 of the reduction.\<close>

function pairwise_sum :: "npfloat list \<Rightarrow> npfloat" where
  "pairwise_sum a =
     (if length a < 8 then foldl f64_add (Num 0) a
      else if length a \<le> 128 then
        (let m = length a - length a mod 8;
             r = (\<lambda>j. foldl f64_add (a ! j) (map (\<lambda>q. a ! (8 * q + j)) [1..<m div 8]));
             res = f64_add (f64_add (f64_add (r 0) (r 1)) (f64_add (r 2) (r 3)))
                           (f64_add (f64_add (r 4) (r 5)) (f64_add (r 6) (r 7)))
         in foldl f64_add res (drop m a))
      else
        (let n2 = length a div 2 - (length a div 2) mod 8
         in f64_add (pairwise_sum (take n2 a)) (pairwise_sum (drop n2 a))))"
  by pat_completeness auto
termination
  by (relation "measure length") auto

declare pairwise_sum.simps [simp del]

definition np_sum :: "npfloat list \<Rightarrow> npfloat" where
  "np_sum a = f64_add (Num 0) (pairwise_sum a)"

text \<open>\<open>np.mean\<close> of a list of floats: the list as a float64 array (a price that is a
  float64 is its own element; any other real stands for the float64 nearest to it, as
  a decimal literal does in Python), its sum, and the sum divided by the number of
  elements, in float64. For the empty list this is \<open>0.0 / 0\<close>, which is NaN (numpy
  warns and does not raise).\<close>

definition np_mean :: "real list \<Rightarrow> npfloat" where
  "np_mean a = f64_div (np_sum (map f64_round a)) (length a)"

text \<open>Comparisons of float64 values: any comparison with NaN is false.\<close>

fun np_lt :: "npfloat \<Rightarrow> npfloat \<Rightarrow> bool" where
  "np_lt (Num a) (Num b) = (a < b)"
| "np_lt NaN y = False"
| "np_lt x NaN = False"
| "np_lt x NegInf = False"
| "np_lt PosInf y = False"
| "np_lt NegInf y = True"
| "np_lt x PosInf = True"

definition np_gt :: "npfloat \<Rightarrow> npfloat \<Rightarrow> bool" where
  "np_gt x y = np_lt y x"


text \<open>\<open>Trader.make_decision\<close> (trader.py, 282-308). The body has no \<open>raise\<close>; the
  result type still has room for an error, so that "the call fails" can be stated.
  The side is optional because the caller tests for a side that is neither BUY nor
  SELL.\<close>

definition make_decision :: "real list \<Rightarrow> real list \<Rightarrow> py_error + (OrderSide option \<times> real)" where
  "make_decision short_prices_5d long_prices_20d =
     (let sma_5d = np_mean short_prices_5d;
          sma_20d = np_mean long_prices_20d
      in if np_gt sma_5d sma_20d then Inr (Some BUY, 0.75)
         else if np_lt sma_5d sma_20d then Inr (Some SELL, 0.10)
         else Inr (Some BUY, 0.50))"

text \<open>The exact arithmetic mean of a non-empty window.\<close>

definition arithmetic_mean :: "real list \<Rightarrow> real" where
  "arithmetic_mean xs = sum_list xs / real (length xs)"

section \<open>Trade ledger\<close>

text \<open>\<open>Trader._update_trade_log\<close> (trader.py, 200-227): make the directory \<open>logs\<close> if it
  is missing, write the header when the log file does not exist, then open the file
  in append mode and write one row. Append mode creates a missing file.\<close>

definition Trader_update_trade_log ::
  "Trader \<Rightarrow> real option \<Rightarrow> string \<Rightarrow> OrderSide \<Rightarrow> string \<Rightarrow> world \<Rightarrow> world" where
  "Trader_update_trade_log self amount trade_type side st w =
     (let w1 = (if ''logs'' \<in> dirs w then w else w\<lparr>dirs := insert ''logs'' (dirs w)\<rparr>);
          log_file = ''logs/trade_log.csv'';
          w2 = (case files w1 log_file of
                  None \<Rightarrow> w1\<lparr>files := (files w1)(log_file \<mapsto>
                            [HeaderLine ''timestamp,symbol,amount,trade_type,side,status''])\<rparr>
                | Some ls \<Rightarrow> w1);
          row = RecordLine \<lparr>tr_symbol = symbol self, tr_amount = amount,
                  tr_trade_type = trade_type, tr_side = side, tr_status = st\<rparr>
      in w2\<lparr>files := (files w2)(log_file \<mapsto>
              (case files w2 log_file of None \<Rightarrow> [row] | Some ls \<Rightarrow> ls @ [row]))\<rparr>)"

text \<open>\<open>update_trade_log\<close> (main.py, 116-124): the same in the working directory, with
  another header.\<close>

definition update_trade_log ::
  "string \<Rightarrow> real option \<Rightarrow> string \<Rightarrow> OrderSide \<Rightarrow> string \<Rightarrow> world \<Rightarrow> world" where
  "update_trade_log symb amount trade_type side st w =
     (let log_file = ''trade_log.csv'';
          w2 = (case files w log_file of
                  None \<Rightarrow> w\<lparr>files := (files w)(log_file \<mapsto>
                            [HeaderLine ''time,symbol,notional,trade_type,side,status''])\<rparr>
                | Some ls \<Rightarrow> w);
          row = RecordLine \<lparr>tr_symbol = symb, tr_amount = amount,
                  tr_trade_type = trade_type, tr_side = side, tr_status = st\<rparr>
      in w2\<lparr>files := (files w2)(log_file \<mapsto>
              (case files w2 log_file of None \<Rightarrow> [row] | Some ls \<Rightarrow> ls @ [row]))\<rparr>)"

text \<open>The lines of a file (none when it does not exist), its header lines and its rows.\<close>

definition file_lines :: "world \<Rightarrow> string \<Rightarrow> ledger_line list" where
  "file_lines w path = (case files w path of None \<Rightarrow> [] | Some ls \<Rightarrow> ls)"

fun is_header :: "ledger_line \<Rightarrow> bool" where
  "is_header (HeaderLine h) = True"
| "is_header (RecordLine r) = False"

fun rows_of :: "ledger_line list \<Rightarrow> trade_record list" where
  "rows_of [] = []"
| "rows_of (HeaderLine h # ls) = rows_of ls"
| "rows_of (RecordLine r # ls) = r # rows_of ls"

text \<open>A sequence of appends by the class, one per row, oldest first.\<close>

fun Trader_append_all :: "Trader \<Rightarrow> (real option \<times> string \<times> OrderSide \<times> string) list \<Rightarrow> world \<Rightarrow> world" where
  "Trader_append_all self [] w = w"
| "Trader_append_all self ((amount, trade_type, side, st) # rest) w =
     Trader_append_all self rest (Trader_update_trade_log self amount trade_type side st w)"

fun append_all :: "string \<Rightarrow> (real option \<times> string \<times> OrderSide \<times> string) list \<Rightarrow> world \<Rightarrow> world" where
  "append_all symb [] w = w"
| "append_all symb ((amount, trade_type, side, st) # rest) w =
     append_all symb rest (update_trade_log symb amount trade_type side st w)"

text \<open>The row that a call with these arguments writes.\<close>

definition row_of :: "string \<Rightarrow> real option \<times> string \<times> OrderSide \<times> string \<Rightarrow> trade_record" where
  "row_of symb a = (case a of (amount, trade_type, side, st) \<Rightarrow>
     \<lparr>tr_symbol = symb, tr_amount = amount, tr_trade_type = trade_type,
      tr_side = side, tr_status = st\<rparr>)"

section \<open>Order executor\<close>

text \<open>Python truth of an optional float: \<open>None\<close> and \<open>0.0\<close> are false.\<close>

definition truthy :: "real option \<Rightarrow> bool" where
  "truthy x = (case x of None \<Rightarrow> False | Some v \<Rightarrow> v \<noteq> 0)"

text \<open>Python's \<open>a or b\<close>.\<close>

definition py_or :: "real option \<Rightarrow> real option \<Rightarrow> real option" where
  "py_or a b = (if truthy a then a else b)"

text \<open>The \<open>while\<close> loop of \<open>Trader._monitor_order\<close> (trader.py, 185-189) and of
  \<open>monitor_order\<close> (main.py, 100-104); the two are the same statements, with a step
  of 60 seconds. \<open>k\<close> counts the polls made so far. A poll that raises ends the loop
  with its error.\<close>

function monitor_loop :: "env \<Rightarrow> order \<Rightarrow> int \<Rightarrow> nat \<Rightarrow> world \<Rightarrow> (py_error + order) \<times> world" where
  "monitor_loop e ord remaining_time k w =
     (if status ord \<noteq> ''filled'' \<and> remaining_time > 0
      then (let w1 = w\<lparr>calls := calls w @ [Sleep 60, GetOrderById (order_id ord)]\<rparr>
            in case get_order_by_id e k of
                 Inl err \<Rightarrow> (Inl err, w1)
               | Inr st \<Rightarrow> monitor_loop e (ord\<lparr>status := st\<rparr>) (remaining_time - 60) (Suc k) w1)
      else (Inr ord, w))"
  by pat_completeness auto
termination
  by (relation "measure (\<lambda>(e, ord, remaining_time, k, w). nat remaining_time)") auto

declare monitor_loop.simps [simp del]

text \<open>\<open>Trader._monitor_order\<close> (trader.py, 167-198): the row is written before the
  cancel request. Nothing catches an error of a poll or of the cancel request.\<close>

definition Trader_monitor_order ::
  "Trader \<Rightarrow> env \<Rightarrow> order \<Rightarrow> real option \<Rightarrow> string \<Rightarrow> OrderSide \<Rightarrow> world \<Rightarrow> (py_error + bool) \<times> world" where
  "Trader_monitor_order self e ord amount trade_type side w =
     (case monitor_loop e ord (max_wait self) 0 w of
        (Inl err, w1) \<Rightarrow> (Inl err, w1)
      | (Inr ord', w1) \<Rightarrow>
          (let st = (if status ord' \<noteq> ''filled'' then ''CANCELLED'' else ''FILLED'');
               w2 = Trader_update_trade_log self amount trade_type side st w1
           in if status ord' \<noteq> ''filled''
              then (let w3 = w2\<lparr>calls := calls w2 @ [CancelOrderById (order_id ord')]\<rparr>
                    in case cancel_order_by_id e (order_id ord') of
                         Some err \<Rightarrow> (Inl err, w3)
                       | None \<Rightarrow> (Inr (status ord' = ''filled''), w3))
              else (Inr (status ord' = ''filled''), w2)))"

text \<open>\<open>monitor_order\<close> (main.py, 97-113): the cancel request comes before the row;
  the result is the order, or \<open>None\<close> after a cancel. \<open>MAX_WAIT\<close> comes from the
  configuration module, which is a parameter here.\<close>

definition monitor_order ::
  "int \<Rightarrow> env \<Rightarrow> order \<Rightarrow> string \<Rightarrow> real option \<Rightarrow> string \<Rightarrow> OrderSide \<Rightarrow> world \<Rightarrow>
     (py_error + order option) \<times> world" where
  "monitor_order MAX_WAIT e ord symb amount trade_type side w =
     (case monitor_loop e ord MAX_WAIT 0 w of
        (Inl err, w1) \<Rightarrow> (Inl err, w1)
      | (Inr ord', w1) \<Rightarrow>
          if status ord' \<noteq> ''filled''
          then (let w2 = w1\<lparr>calls := calls w1 @ [CancelOrderById (order_id ord')]\<rparr>
                in case cancel_order_by_id e (order_id ord') of
                     Some err \<Rightarrow> (Inl err, w2)
                   | None \<Rightarrow>
                       (Inr None, update_trade_log symb amount trade_type side ''CANCELLED'' w2))
          else (Inr (Some ord'), update_trade_log symb amount trade_type side ''FILLED'' w1))"

text \<open>The dictionary \<open>request_params\<close> (trader.py, 147-159; main.py, 75-87): the
  notional when it is true, else the quantity when it is true, else \<open>ValueError\<close>.\<close>

definition request_params ::
  "string \<Rightarrow> OrderSide \<Rightarrow> real option \<Rightarrow> real option \<Rightarrow> py_error + order_request" where
  "request_params symb side qty notional =
     (let params = \<lparr>req_symbol = symb, req_side = side, req_type = MARKET,
            req_time_in_force = DAY, req_notional = None, req_qty = None\<rparr>
      in if truthy notional then Inr (params\<lparr>req_notional := notional\<rparr>)
         else if truthy qty then Inr (params\<lparr>req_qty := qty\<rparr>)
         else Inl ValueError)"

text \<open>\<open>Trader._place_order\<close> (trader.py, 131-165). A \<open>submit_order\<close> that raises is not
  caught: the error is the result. The result of the monitor is returned as it is.\<close>

definition Trader_place_order ::
  "Trader \<Rightarrow> env \<Rightarrow> real option \<Rightarrow> real option \<Rightarrow> OrderSide \<Rightarrow> world \<Rightarrow> (py_error + bool) \<times> world" where
  "Trader_place_order self e qty notional side w =
     (let order_type = (if truthy notional then ''NOTIONAL'' else ''FRACTIONAL'')
      in case request_params (symbol self) side qty notional of
           Inl err \<Rightarrow> (Inl err, w)
         | Inr request \<Rightarrow>
             (let w1 = w\<lparr>calls := calls w @ [SubmitOrder request]\<rparr>
              in case submit_order e request of
                   Inl err \<Rightarrow> (Inl err, w1)
                 | Inr ord \<Rightarrow>
                     Trader_monitor_order self e ord (py_or qty notional) order_type side w1))"

text \<open>\<open>place_order\<close> (main.py, 71-94).\<close>

definition place_order ::
  "int \<Rightarrow> env \<Rightarrow> string \<Rightarrow> real option \<Rightarrow> real option \<Rightarrow> OrderSide \<Rightarrow> world \<Rightarrow> (py_error + order option) \<times> world" where
  "place_order MAX_WAIT e symb qty notional side w =
     (let order_type = (if truthy notional then ''NOTIONAL'' else ''FRACTIONAL'')
      in case request_params symb side qty notional of
           Inl err \<Rightarrow> (Inl err, w)
         | Inr request \<Rightarrow>
             (let w1 = w\<lparr>calls := calls w @ [SubmitOrder request]\<rparr>
              in case submit_order e request of
                   Inl err \<Rightarrow> (Inl err, w1)
                 | Inr ord \<Rightarrow>
                     monitor_order MAX_WAIT e ord symb (py_or qty notional) order_type side w1))"

section \<open>Market clock\<close>

text \<open>\<open>weekday()\<close>: Monday is 0, Saturday 5, Sunday 6.\<close>

definition weekday :: "datetime \<Rightarrow> nat" where
  "weekday d = (ordinal d + 6) mod 7"

text \<open>\<open>d + timedelta(days=n)\<close> and \<open>d.replace(hour=9, minute=30, second=0)\<close>; the
  latter keeps the date and the microsecond.\<close>

definition plus_days :: "datetime \<Rightarrow> nat \<Rightarrow> datetime" where
  "plus_days d n = d\<lparr>ordinal := ordinal d + n\<rparr>"

definition replace_0930 :: "datetime \<Rightarrow> datetime" where
  "replace_0930 d = d\<lparr>hour := 9, minute := 30, second := 0\<rparr>"

text \<open>\<open>d.time()\<close> and the order of times of day, which is the order of the tuples
  (hour, minute, second, microsecond).\<close>

definition time_of :: "datetime \<Rightarrow> nat \<times> nat \<times> nat \<times> nat" where
  "time_of d = (hour d, minute d, second d, microsecond d)"

fun time_less :: "nat \<times> nat \<times> nat \<times> nat \<Rightarrow> nat \<times> nat \<times> nat \<times> nat \<Rightarrow> bool" where
  "time_less (h1, m1, s1, u1) (h2, m2, s2, u2) =
     (h1 < h2 \<or> (h1 = h2 \<and> (m1 < m2 \<or> (m1 = m2 \<and> (s1 < s2 \<or> (s1 = s2 \<and> u1 < u2))))))"

text \<open>\<open>(a - b).total_seconds()\<close>.\<close>

definition seconds_of_day :: "datetime \<Rightarrow> int" where
  "seconds_of_day d = int (hour d) * 3600 + int (minute d) * 60 + int (second d)"

definition total_seconds :: "datetime \<Rightarrow> datetime \<Rightarrow> real" where
  "total_seconds a b =
     real_of_int ((int (ordinal a) - int (ordinal b)) * 86400 + (seconds_of_day a - seconds_of_day b))
     + (real (microsecond a) - real (microsecond b)) / 1000000"

section \<open>Scheduler loop of the class\<close>

text \<open>The four branches of one pass of \<open>Trader.run\<close> (trader.py, 319-370), named after
  what each logs.\<close>

datatype clock_branch =
    MarketClosedForToday
  | MarketWillOpenSoon
  | MarketOpen
  | MarketClosedForTheWeek

definition Trader_clock_branch :: "Trader \<Rightarrow> datetime \<Rightarrow> clock_branch" where
  "Trader_clock_branch self t =
     (if weekday t < 5 \<or> quick_test self then
        (if time_less (16, 0, 0, 0) (time_of t) \<and> \<not> quick_test self then MarketClosedForToday
         else if time_less (time_of t) (9, 30, 0, 0) \<and> \<not> quick_test self then MarketWillOpenSoon
         else MarketOpen)
      else MarketClosedForTheWeek)"

text \<open>The value of \<open>next_open\<close> at the end of the pass, in each branch.\<close>

definition Trader_next_open :: "Trader \<Rightarrow> datetime \<Rightarrow> datetime" where
  "Trader_next_open self t =
     (case Trader_clock_branch self t of
        MarketClosedForToday \<Rightarrow> replace_0930 (plus_days t 1)
      | MarketWillOpenSoon \<Rightarrow> replace_0930 t
      | MarketOpen \<Rightarrow> plus_days t 2
      | MarketClosedForTheWeek \<Rightarrow> plus_days t 1)"

text \<open>The sizing of trader.py, 352-366: the arguments of the call of \<open>_place_order\<close>,
  or \<open>None\<close> when no call is made (a SELL without a position of the symbol, or a side
  that is neither BUY nor SELL).\<close>

record order_args =
  arg_qty :: "real option"
  arg_notional :: "real option"
  arg_side :: OrderSide

definition Trader_order_args :: "Trader \<Rightarrow> env \<Rightarrow> OrderSide option \<Rightarrow> real \<Rightarrow> order_args option" where
  "Trader_order_args self e side multiplier =
     (if side = Some BUY then
        (let notional = cash e * multiplier
         in Some \<lparr>arg_qty = None, arg_notional = Some notional, arg_side = BUY\<rparr>)
      else if side = Some SELL then
        (case filter (\<lambda>pos. pos_symbol pos = symbol self) (get_all_positions e) of
           [] \<Rightarrow> None
         | position # others \<Rightarrow>
             (let qty = pos_qty position * multiplier
              in Some \<lparr>arg_qty = Some qty, arg_notional = None, arg_side = SELL\<rparr>))
      else None)"

text \<open>The last two statements of a pass: the sleep until \<open>next_open\<close>, or of 60 seconds
  in the quick test.\<close>

definition Trader_sleep :: "Trader \<Rightarrow> datetime \<Rightarrow> world \<Rightarrow> world" where
  "Trader_sleep self t w =
     (let sleep_time = (if \<not> quick_test self then total_seconds (Trader_next_open self t) t else 60)
      in w\<lparr>calls := calls w @ [Sleep sleep_time]\<rparr>)"

text \<open>One pass of the \<open>while True\<close> of \<open>Trader.run\<close>. Nothing in \<open>run\<close> catches an
  exception, so an error of the pass is the result of the pass.\<close>

definition Trader_run_pass :: "Trader \<Rightarrow> env \<Rightarrow> world \<Rightarrow> (py_error + unit) \<times> world" where
  "Trader_run_pass self e w =
     (case Trader_clock_branch self (now e) of
        MarketOpen \<Rightarrow>
          (case make_decision (closing_5d e) (closing_20d e) of
             Inl err \<Rightarrow> (Inl err, w)
           | Inr (side, multiplier) \<Rightarrow>
               (case Trader_order_args self e side multiplier of
                  None \<Rightarrow> (Inr (), Trader_sleep self (now e) w)
                | Some a \<Rightarrow>
                    (case Trader_place_order self e (arg_qty a) (arg_notional a) (arg_side a) w of
                       (Inl err, w') \<Rightarrow> (Inl err, w')
                     | (Inr filled, w') \<Rightarrow> (Inr (), Trader_sleep self (now e) w'))))
      | other \<Rightarrow> (Inr (), Trader_sleep self (now e) w))"

text \<open>\<open>Trader.run\<close> over the passes for which the outside world's answers are given,
  one \<open>env\<close> per pass. The loop has no exit of its own: either a pass raises, which
  ends \<open>run\<close> (the passes that remain are not made), or the loop is still running
  after the last pass given.\<close>

datatype outcome = Raised py_error world | Running world

fun Trader_run :: "Trader \<Rightarrow> env list \<Rightarrow> world \<Rightarrow> outcome" where
  "Trader_run self [] w = Running w"
| "Trader_run self (e # es) w =
     (case Trader_run_pass self e w of
        (Inl err, w') \<Rightarrow> Raised err w'
      | (Inr u, w') \<Rightarrow> Trader_run self es w')"

section \<open>Scheduler loop of main.py\<close>

text \<open>\<open>execute_daily_trade_strategy\<close> (main.py, 127-141).\<close>

definition execute_daily_trade_strategy ::
  "int \<Rightarrow> env \<Rightarrow> string \<Rightarrow> world \<Rightarrow> (py_error + unit) \<times> world" where
  "execute_daily_trade_strategy MAX_WAIT e symb w =
     (let w0 = w\<lparr>calls := calls w @ [CancelOrders]\<rparr>;
          strategy = (if random_choice e then BUY else SELL)
      in if strategy = BUY then
           (let notional = cash e * 0.4
            in case place_order MAX_WAIT e symb None (Some notional) BUY w0 of
                 (Inl err, w') \<Rightarrow> (Inl err, w')
               | (Inr res, w') \<Rightarrow> (Inr (), w'))
         else
           (case get_position e symb of
              None \<Rightarrow> (Inr (), w0)
            | Some position \<Rightarrow>
                (let qty = pos_qty position * 0.3
                 in case place_order MAX_WAIT e symb (Some qty) None SELL w0 of
                      (Inl err, w') \<Rightarrow> (Inl err, w')
                    | (Inr res, w') \<Rightarrow> (Inr (), w'))))"

text \<open>The instant until which one pass of \<open>run_trade_loop\<close> (main.py, 148-169) sleeps,
  or \<open>None\<close> in the branches without a sleep (in session, and after the close).\<close>

definition run_trade_loop_wake :: "datetime \<Rightarrow> datetime option" where
  "run_trade_loop_wake t =
     (if weekday t < 5 then
        (if \<not> time_less (time_of t) (9, 30, 0, 0) \<and> \<not> time_less (16, 0, 0, 0) (time_of t) then None
         else if time_less (time_of t) (9, 30, 0, 0) then Some (replace_0930 t)
         else None)
      else Some (replace_0930 (plus_days t 1)))"

definition run_trade_loop_pass :: "int \<Rightarrow> env \<Rightarrow> string \<Rightarrow> world \<Rightarrow> (py_error + unit) \<times> world" where
  "run_trade_loop_pass MAX_WAIT e symb w =
     (if weekday (now e) < 5 then
        (if \<not> time_less (time_of (now e)) (9, 30, 0, 0) \<and> \<not> time_less (16, 0, 0, 0) (time_of (now e))
         then execute_daily_trade_strategy MAX_WAIT e symb w
         else if time_less (time_of (now e)) (9, 30, 0, 0)
         then (Inr (), w\<lparr>calls := calls w @ [Sleep (total_seconds (replace_0930 (now e)) (now e))]\<rparr>)
         else (Inr (), w))
      else (Inr (), w\<lparr>calls := calls w @
              [Sleep (total_seconds (replace_0930 (plus_days (now e) 1)) (now e))]\<rparr>))"

section \<open>Example inputs\<close>

text \<open>Concrete inputs at which the results below are evaluated: a trader of the symbol
  VOO outside the quick test, an empty file system, brokers that accept or reject an
  order or a cancel request, status sequences, and clock readings of the week of
  Monday 2024-01-08 (ordinal 738893).\<close>

definition trader_voo :: "int \<Rightarrow> Trader" where
  "trader_voo mw = \<lparr>symbol = ''VOO'', max_wait = mw, quick_test = False\<rparr>"

definition fresh_world :: world where
  "fresh_world = \<lparr>dirs = {}, files = (\<lambda>path. None), calls = []\<rparr>"

definition pending_order :: order where
  "pending_order = \<lparr>order_id = 1, status = ''pending''\<rparr>"

definition accept_pending :: "order_request \<Rightarrow> py_error + order" where
  "accept_pending request = Inr \<lparr>order_id = 1, status = ''pending''\<rparr>"

definition accept_filled :: "order_request \<Rightarrow> py_error + order" where
  "accept_filled request = Inr \<lparr>order_id = 1, status = ''filled''\<rparr>"

definition reject :: "order_request \<Rightarrow> py_error + order" where
  "reject request = Inl APIError"

definition always_pending :: "nat \<Rightarrow> py_error + string" where
  "always_pending k = Inr ''pending''"


definition always_canceled :: "nat \<Rightarrow> py_error + string" where
  "always_canceled k = Inr ''canceled''"

definition poll_raises :: "nat \<Rightarrow> py_error + string" where
  "poll_raises k = Inl APIError"

definition cancel_accepted :: "nat \<Rightarrow> py_error option" where
  "cancel_accepted oid = None"

definition cancel_refused :: "nat \<Rightarrow> py_error option" where
  "cancel_refused oid = Some APIError"


definition no_position :: "string \<Rightarrow> position option" where
  "no_position symb = None"

definition saturday_1000 :: datetime where
  "saturday_1000 = \<lparr>ordinal = 738891, hour = 10, minute = 0, second = 0, microsecond = 0\<rparr>"

definition monday_0800 :: datetime where
  "monday_0800 = \<lparr>ordinal = 738893, hour = 8, minute = 0, second = 0, microsecond = 0\<rparr>"

definition monday_1000 :: datetime where
  "monday_1000 = \<lparr>ordinal = 738893, hour = 10, minute = 0, second = 0, microsecond = 0\<rparr>"

definition session_env ::
  "real list \<Rightarrow> real \<Rightarrow> position list \<Rightarrow> (order_request \<Rightarrow> py_error + order) \<Rightarrow>
     (nat \<Rightarrow> py_error + string) \<Rightarrow> env" where
  "session_env short_prices c ps submit statuses =
     \<lparr>now = monday_1000, closing_5d = short_prices, closing_20d = [2, 4, 3], cash = c,
      get_all_positions = ps, submit_order = submit, get_order_by_id = statuses,
      cancel_order_by_id = cancel_accepted, random_choice = True, get_position = no_position\<rparr>"

section \<open>Signal engine: results\<close>

text \<open>The exponent function brackets every positive real from the smallest normal
  number on in its binade.\<close>

lemma f64_exponent_ge_one:
  assumes "1 \<le> a"
  shows "2 powi (f64_exponent a) \<le> a \<and> a < 2 powi (f64_exponent a + 1)"
proof -
  let ?n = "\<lfloor>a\<rfloor>"
  have n: "0 < ?n" using assms by simp
  have b: "2 ^ nat (bitlen ?n - 1) \<le> ?n" "?n < 2 ^ nat (bitlen ?n)"
    using bitlen_bounds [OF n] by simp_all
  have k: "1 \<le> bitlen ?n"
    using n by (simp add: bitlen_alt_def)
  then have e: "f64_exponent a = bitlen ?n - 1"
    using assms by (simp add: f64_exponent_def)
  have "real_of_int (2 ^ nat (bitlen ?n - 1)) \<le> real_of_int ?n"
    using b(1) by (simp only: of_int_le_iff)
  then have "(2::real) ^ nat (bitlen ?n - 1) \<le> real_of_int ?n"
    by simp
  moreover have "real_of_int ?n \<le> a"
    by simp
  ultimately have "(2::real) ^ nat (bitlen ?n - 1) \<le> a"
    by (rule order_trans)
  then have lo: "2 powi (bitlen ?n - 1) \<le> a"
    using k by (simp add: power_int_def)
  have "?n + 1 \<le> 2 ^ nat (bitlen ?n)"
    using b(2) by simp
  then have "real_of_int (?n + 1) \<le> real_of_int (2 ^ nat (bitlen ?n))"
    by (simp only: of_int_le_iff)
  then have "real_of_int ?n + 1 \<le> 2 ^ nat (bitlen ?n)"
    by simp
  moreover have "a < real_of_int ?n + 1"
    by linarith
  ultimately have "a < 2 ^ nat (bitlen ?n)"
    by (rule less_le_trans [rotated])
  then have hi: "a < 2 powi (bitlen ?n)"
    using k by (simp add: power_int_def)
  show ?thesis
    using lo hi by (simp add: e)
qed

lemma f64_exponent_lt_one:
  assumes "2 powi (- 1022) \<le> a" and "a < 1"
  shows "2 powi (f64_exponent a) \<le> a \<and> a < 2 powi (f64_exponent a + 1)"
proof -
  have a0: "0 < a"
  proof -
    have "(0::real) < 2 powi (- 1022)"
      by (rule zero_less_power_int) simp
    with assms(1) show ?thesis
      by linarith
  qed
  let ?y = "1 / a"
  let ?m = "\<lceil>?y\<rceil> - 1"
  have y1: "1 < ?y" using a0 assms(2) by simp
  have m: "0 < ?m" using y1 by linarith
  have b: "2 ^ nat (bitlen ?m - 1) \<le> ?m" "?m < 2 ^ nat (bitlen ?m)"
    using bitlen_bounds [OF m] by simp_all
  have k: "1 \<le> bitlen ?m"
    using m by (simp add: bitlen_alt_def)
  have my: "real_of_int ?m < ?y" "?y \<le> real_of_int ?m + 1"
    by linarith+
  have "?m + 1 \<le> 2 ^ nat (bitlen ?m)"
    using b(2) by simp
  then have "real_of_int (?m + 1) \<le> real_of_int (2 ^ nat (bitlen ?m))"
    by (simp only: of_int_le_iff)
  then have "real_of_int ?m + 1 \<le> 2 ^ nat (bitlen ?m)"
    by simp
  then have yhi: "?y \<le> 2 ^ nat (bitlen ?m)"
    using my(2) by linarith
  have "real_of_int (2 ^ nat (bitlen ?m - 1)) \<le> real_of_int ?m"
    using b(1) by (simp only: of_int_le_iff)
  then have "(2::real) ^ nat (bitlen ?m - 1) \<le> real_of_int ?m"
    by simp
  then have ylo: "2 ^ nat (bitlen ?m - 1) < ?y"
    using my(1) by (rule le_less_trans)
  have lo: "2 powi (- bitlen ?m) \<le> a"
  proof -
    have "1 \<le> a * 2 ^ nat (bitlen ?m)"
      using yhi a0 by (simp add: field_simps)
    then have "1 / 2 ^ nat (bitlen ?m) \<le> a"
      by (simp add: field_simps)
    then show ?thesis
      using k by (simp add: power_int_def field_simps)
  qed
  have hi: "a < 2 powi (- bitlen ?m + 1)"
  proof -
    have "a * 2 ^ nat (bitlen ?m - 1) < 1"
      using ylo a0 by (simp add: field_simps)
    then have "a < 1 / 2 ^ nat (bitlen ?m - 1)"
      by (simp add: field_simps)
    moreover have "(2::real) powi (- bitlen ?m + 1) = 1 / 2 ^ nat (bitlen ?m - 1)"
    proof (cases "bitlen ?m = 1")
      case True
      then show ?thesis by simp
    next
      case False
      with k have "- bitlen ?m + 1 < 0" by simp
      moreover have "nat (- (- bitlen ?m + 1)) = nat (bitlen ?m - 1)" by simp
      ultimately show ?thesis
        by (simp add: power_int_def field_simps)
    qed
    ultimately show ?thesis by simp
  qed
  have "(2::real) powi (- 1022) < 2 powi (- bitlen ?m + 1)"
    using assms(1) hi by (rule le_less_trans)
  have "- 1022 < - bitlen ?m + 1"
  proof (rule ccontr)
    assume "\<not> - 1022 < - bitlen ?m + 1"
    then have "- bitlen ?m + 1 \<le> - 1022"
      by simp
    then have "(2::real) powi (- bitlen ?m + 1) \<le> 2 powi (- 1022)"
      by (rule power_int_increasing) simp
    with \<open>(2::real) powi (- 1022) < 2 powi (- bitlen ?m + 1)\<close> show False
      by linarith
  qed
  then have e: "f64_exponent a = - bitlen ?m"
    using assms(2) by (simp add: f64_exponent_def)
  show ?thesis
    using lo hi by (simp add: e)
qed

text \<open>Values of the rounding, of the mean and of the decision at small whole prices,
  where no rounding occurs.\<close>

lemma np_mean_Nil: "np_mean [] = NaN"
  by (simp add: np_mean_def np_sum_def pairwise_sum.simps f64_round_def)

lemma np_lt_NaN: "\<not> np_lt NaN y" "\<not> np_lt x NaN"
  by (cases x; simp)+

lemma f64_round_small:
  "f64_round 1 = Num 1" "f64_round 2 = Num 2" "f64_round 3 = Num 3" "f64_round 4 = Num 4"
  "f64_round 5 = Num 5" "f64_round 6 = Num 6" "f64_round 8 = Num 8" "f64_round 9 = Num 9"
  "f64_round (3 / 2) = Num (3 / 2)"
  unfolding f64_round_def Let_def
  by (simp_all add: f64_exponent_def compute_bitlen) (simp_all add: round_half_even_def)

lemma np_mean_small:
  "np_mean [3, 5] = Num 4" "np_mean [2, 4, 3] = Num 3" "np_mean [1, 2] = Num (3 / 2)"
  "np_mean [2, 4] = Num 3" "np_mean [3, 3, 3] = Num 3"
  by (simp_all add: np_mean_def np_sum_def pairwise_sum.simps f64_round_small)

lemma make_decision_small:
  "make_decision [3, 5] [2, 4, 3] = Inr (Some BUY, 0.75)"
  "make_decision [1, 2] [2, 4, 3] = Inr (Some SELL, 0.10)"
  "make_decision [2, 4] [3, 3, 3] = Inr (Some BUY, 0.50)"
  by (simp_all add: make_decision_def Let_def np_mean_small np_gt_def)



text \<open>The means of two pairs of windows, step by step: the float64 values of 0.1, 0.2
  and 0.3 against that of 0.2, and those of 100.1, 100.2 and 100.3 against that of
  100.2.\<close>

lemma np_mean_three:
  "np_mean [x1, x2, x3] =
     f64_div (f64_add (Num 0)
       (f64_add (f64_add (f64_add (Num 0) (f64_round x1)) (f64_round x2)) (f64_round x3))) 3"
  by (simp add: np_mean_def np_sum_def pairwise_sum.simps numeral_3_eq_3)

lemma np_mean_one:
  "np_mean [x1] = f64_div (f64_add (Num 0) (f64_add (Num 0) (f64_round x1))) 1"
  by (simp add: np_mean_def np_sum_def pairwise_sum.simps)

lemma f64_div_three: "f64_div (Num a) 3 = f64_round (a / 3)"
  and f64_div_one: "f64_div (Num a) 1 = f64_round a"
  by simp_all

lemma f64_round_tenths:
  "f64_round (3602879701896397 / 2 ^ 55) = Num (3602879701896397 / 2 ^ 55)"
  "f64_round (3602879701896397 / 2 ^ 55 + 3602879701896397 / 2 ^ 54) = Num (5404319552844596 / 2 ^ 54)"
  "f64_round (5404319552844596 / 2 ^ 54 + 5404319552844595 / 2 ^ 54) = Num (5404319552844596 / 2 ^ 53)"
  "f64_round (5404319552844596 / 2 ^ 53) = Num (5404319552844596 / 2 ^ 53)"
  "f64_round (5404319552844596 / 2 ^ 53 / 3) = Num (7205759403792795 / 2 ^ 55)"
  "f64_round (3602879701896397 / 2 ^ 54) = Num (3602879701896397 / 2 ^ 54)"
  "f64_round (5404319552844595 / 2 ^ 54) = Num (5404319552844595 / 2 ^ 54)"
  unfolding f64_round_def Let_def
  by (simp_all add: f64_exponent_def compute_bitlen) (simp_all add: round_half_even_def)

lemma f64_round_hundreds:
  "f64_round (3521955646092083 / 2 ^ 45) = Num (3521955646092083 / 2 ^ 45)"
  "f64_round (7050948166601933 / 2 ^ 46) = Num (7050948166601933 / 2 ^ 46)"
  "f64_round (7057985041019699 / 2 ^ 46) = Num (7057985041019699 / 2 ^ 46)"
  "f64_round (3521955646092083 / 2 ^ 45 + 7050948166601933 / 2 ^ 46) = Num (3523714864696525 / 2 ^ 44)"
  "f64_round (3523714864696525 / 2 ^ 44 + 7057985041019699 / 2 ^ 46) = Num (2644105562475725 / 2 ^ 43)"
  "f64_round (2644105562475725 / 2 ^ 43) = Num (2644105562475725 / 2 ^ 43)"
  "f64_round (2644105562475725 / 2 ^ 43 / 3) = Num (7050948166601933 / 2 ^ 46)"
  unfolding f64_round_def Let_def
  by (simp_all add: f64_exponent_def compute_bitlen) (simp_all add: round_half_even_def)

lemma np_mean_tenths:
  "np_mean [3602879701896397 / 2 ^ 55, 3602879701896397 / 2 ^ 54, 5404319552844595 / 2 ^ 54] =
     Num (7205759403792795 / 2 ^ 55)"
  "np_mean [3602879701896397 / 2 ^ 54] = Num (3602879701896397 / 2 ^ 54)"
  unfolding np_mean_three np_mean_one f64_add.simps add_0 f64_round_tenths f64_div_three f64_div_one
  by (rule refl)+

lemma np_mean_hundreds:
  "np_mean [3521955646092083 / 2 ^ 45, 7050948166601933 / 2 ^ 46, 7057985041019699 / 2 ^ 46] =
     Num (7050948166601933 / 2 ^ 46)"
  "np_mean [7050948166601933 / 2 ^ 46] = Num (7050948166601933 / 2 ^ 46)"
  unfolding np_mean_three np_mean_one f64_add.simps add_0 f64_round_hundreds f64_div_three f64_div_one
  by (rule refl)+

text \<open>The short window holds the float64 values of 0.1, 0.2 and 0.3 and the long window
  that of 0.2: the exact mean of the short window is below that of the long one, but
  the sums round upwards, the computed short mean is above the long one, and the
  decision is (BUY, 0.75), not (SELL, 0.10). With the float64 values of 100.1, 100.2
  and 100.3 against that of 100.2 the exact short mean is below the long one again,
  the computed means are equal, and the decision is (BUY, 0.50).\<close>

theorem make_decision_rounded_means:
  "make_decision [3602879701896397 / 2 ^ 55, 3602879701896397 / 2 ^ 54, 5404319552844595 / 2 ^ 54]
     [3602879701896397 / 2 ^ 54] = Inr (Some BUY, 0.75)
   \<and> arithmetic_mean [3602879701896397 / 2 ^ 55, 3602879701896397 / 2 ^ 54, 5404319552844595 / 2 ^ 54]
       < arithmetic_mean [3602879701896397 / 2 ^ 54]
   \<and> make_decision [3521955646092083 / 2 ^ 45, 7050948166601933 / 2 ^ 46, 7057985041019699 / 2 ^ 46]
     [7050948166601933 / 2 ^ 46] = Inr (Some BUY, 0.50)
   \<and> arithmetic_mean [3521955646092083 / 2 ^ 45, 7050948166601933 / 2 ^ 46, 7057985041019699 / 2 ^ 46]
       < arithmetic_mean [7050948166601933 / 2 ^ 46]"
  unfolding make_decision_def Let_def np_mean_tenths np_mean_hundreds np_gt_def
  by (simp add: arithmetic_mean_def)

text \<open>
  Claim C2, as the code has it. When at least one of the two windows is empty,
  \<open>make_decision\<close> raises nothing: the mean of the empty window is NaN, both
  comparisons are false, and the call returns (BUY, 0.50).
\<close>

theorem make_decision_empty_window:
  assumes "short_prices = [] \<or> long_prices = []"
  shows "make_decision short_prices long_prices = Inr (Some BUY, 0.50)"
proof -
  have "np_mean short_prices = NaN \<or> np_mean long_prices = NaN"
    using assms by (auto simp: np_mean_Nil)
  then have "\<not> np_gt (np_mean short_prices) (np_mean long_prices)"
    and "\<not> np_lt (np_mean short_prices) (np_mean long_prices)"
    using np_lt_NaN by (auto simp: np_gt_def)
  then show ?thesis by (simp add: make_decision_def Let_def)
qed

theorem make_decision_empty_window_witness:
  "make_decision [1, 2] [] = Inr (Some BUY, 0.50)"
  using make_decision_empty_window [of "[1, 2]" "[]"] by simp

text \<open>With an empty short window the call returns a decision; it does not fail.\<close>

theorem make_decision_empty_window_returns:
  "make_decision [] [2, 4, 3] = Inr (Some BUY, 0.50) \<and> \<not> isl (make_decision [] [2, 4, 3])"
  by (simp add: make_decision_def Let_def np_mean_Nil np_mean_small np_gt_def)

section \<open>Trade ledger: results\<close>

lemma rows_of_append: "rows_of (xs @ ys) = rows_of xs @ rows_of ys"
  by (induction xs rule: rows_of.induct) simp_all

lemma Trader_update_trade_log_fresh:
  "files w ''logs/trade_log.csv'' = None \<Longrightarrow>
   files (Trader_update_trade_log self amount trade_type side st w) ''logs/trade_log.csv'' =
     Some [HeaderLine ''timestamp,symbol,amount,trade_type,side,status'',
           RecordLine (row_of (symbol self) (amount, trade_type, side, st))]"
  by (simp add: Trader_update_trade_log_def row_of_def Let_def)

lemma Trader_update_trade_log_existing:
  "files w ''logs/trade_log.csv'' = Some ls \<Longrightarrow>
   files (Trader_update_trade_log self amount trade_type side st w) ''logs/trade_log.csv'' =
     Some (ls @ [RecordLine (row_of (symbol self) (amount, trade_type, side, st))])"
  by (simp add: Trader_update_trade_log_def row_of_def Let_def)

lemma Trader_update_trade_log_calls:
  "calls (Trader_update_trade_log self amount trade_type side st w) = calls w"
  by (simp add: Trader_update_trade_log_def Let_def split: option.splits)

lemma Trader_update_trade_log_rows:
  "rows_of (file_lines (Trader_update_trade_log self amount trade_type side st w) ''logs/trade_log.csv'') =
   rows_of (file_lines w ''logs/trade_log.csv'') @ [row_of (symbol self) (amount, trade_type, side, st)]"
proof (cases "files w ''logs/trade_log.csv''")
  case None
  then show ?thesis
    by (simp add: file_lines_def Trader_update_trade_log_fresh)
next
  case (Some ls)
  then show ?thesis
    by (simp add: file_lines_def Trader_update_trade_log_existing rows_of_append)
qed

lemma update_trade_log_fresh:
  "files w ''trade_log.csv'' = None \<Longrightarrow>
   files (update_trade_log symb amount trade_type side st w) ''trade_log.csv'' =
     Some [HeaderLine ''time,symbol,notional,trade_type,side,status'',
           RecordLine (row_of symb (amount, trade_type, side, st))]"
  by (simp add: update_trade_log_def row_of_def Let_def)

lemma update_trade_log_existing:
  "files w ''trade_log.csv'' = Some ls \<Longrightarrow>
   files (update_trade_log symb amount trade_type side st w) ''trade_log.csv'' =
     Some (ls @ [RecordLine (row_of symb (amount, trade_type, side, st))])"
  by (simp add: update_trade_log_def row_of_def Let_def)

lemma update_trade_log_calls:
  "calls (update_trade_log symb amount trade_type side st w) = calls w"
  by (simp add: update_trade_log_def Let_def split: option.splits)

lemma update_trade_log_rows:
  "rows_of (file_lines (update_trade_log symb amount trade_type side st w) ''trade_log.csv'') =
   rows_of (file_lines w ''trade_log.csv'') @ [row_of symb (amount, trade_type, side, st)]"
proof (cases "files w ''trade_log.csv''")
  case None
  then show ?thesis
    by (simp add: file_lines_def update_trade_log_fresh)
next
  case (Some ls)
  then show ?thesis
    by (simp add: file_lines_def update_trade_log_existing rows_of_append)
qed

lemma Trader_append_all_existing:
  "files w ''logs/trade_log.csv'' = Some ls \<Longrightarrow>
   files (Trader_append_all self as w) ''logs/trade_log.csv'' =
     Some (ls @ map (\<lambda>a. RecordLine (row_of (symbol self) a)) as)"
proof (induction as arbitrary: w ls)
  case Nil
  then show ?case by simp
next
  case (Cons a as)
  obtain amount trade_type side st where a: "a = (amount, trade_type, side, st)"
    by (cases a) auto
  show ?case
    using Cons.IH [OF Trader_update_trade_log_existing [OF Cons.prems]]
    by (simp add: a)
qed

lemma append_all_existing:
  "files w ''trade_log.csv'' = Some ls \<Longrightarrow>
   files (append_all symb as w) ''trade_log.csv'' =
     Some (ls @ map (\<lambda>a. RecordLine (row_of symb a)) as)"
proof (induction as arbitrary: w ls)
  case Nil
  then show ?case by simp
next
  case (Cons a as)
  obtain amount trade_type side st where a: "a = (amount, trade_type, side, st)"
    by (cases a) auto
  show ?case
    using Cons.IH [OF update_trade_log_existing [OF Cons.prems]]
    by (simp add: a)
qed

lemma filter_header_rows: "filter is_header (map (\<lambda>a. RecordLine (f a)) as) = []"
  by (induction as) simp_all

text \<open>
  Claim C9. An append to a trade log that does not exist yet writes the header line
  once and the row after it; an append to a log that exists adds the row at its end
  and nothing else; so after any number of appends that start without the file, the
  file is one header line followed by the rows, in order.
\<close>

theorem ledger_header_once:
  "(files w ''logs/trade_log.csv'' = None \<longrightarrow>
      files (Trader_update_trade_log self amount trade_type side st w) ''logs/trade_log.csv'' =
        Some [HeaderLine ''timestamp,symbol,amount,trade_type,side,status'',
              RecordLine (row_of (symbol self) (amount, trade_type, side, st))])
 \<and> (files w ''logs/trade_log.csv'' = Some ls \<longrightarrow>
      files (Trader_update_trade_log self amount trade_type side st w) ''logs/trade_log.csv'' =
        Some (ls @ [RecordLine (row_of (symbol self) (amount, trade_type, side, st))]))
 \<and> (files w ''logs/trade_log.csv'' = None \<longrightarrow>
      files (Trader_append_all self (a # as) w) ''logs/trade_log.csv'' =
        Some (HeaderLine ''timestamp,symbol,amount,trade_type,side,status'' #
              map (\<lambda>a. RecordLine (row_of (symbol self) a)) (a # as))
    \<and> length (filter is_header (file_lines (Trader_append_all self (a # as) w) ''logs/trade_log.csv'')) = 1)
 \<and> (files w ''trade_log.csv'' = None \<longrightarrow>
      files (update_trade_log symb amount trade_type side st w) ''trade_log.csv'' =
        Some [HeaderLine ''time,symbol,notional,trade_type,side,status'',
              RecordLine (row_of symb (amount, trade_type, side, st))])
 \<and> (files w ''trade_log.csv'' = Some ls \<longrightarrow>
      files (update_trade_log symb amount trade_type side st w) ''trade_log.csv'' =
        Some (ls @ [RecordLine (row_of symb (amount, trade_type, side, st))]))
 \<and> (files w ''trade_log.csv'' = None \<longrightarrow>
      files (append_all symb (a # as) w) ''trade_log.csv'' =
        Some (HeaderLine ''time,symbol,notional,trade_type,side,status'' #
              map (\<lambda>a. RecordLine (row_of symb a)) (a # as))
    \<and> length (filter is_header (file_lines (append_all symb (a # as) w) ''trade_log.csv'')) = 1)"
proof -
  obtain am tt sd s where a: "a = (am, tt, sd, s)"
    by (cases a) auto
  have t_all: "files (Trader_append_all self (a # as) w) ''logs/trade_log.csv'' =
        Some (HeaderLine ''timestamp,symbol,amount,trade_type,side,status'' #
              map (\<lambda>a. RecordLine (row_of (symbol self) a)) (a # as))"
    if "files w ''logs/trade_log.csv'' = None"
    by (simp add: a Trader_append_all_existing [OF Trader_update_trade_log_fresh [OF that]])
  have m_all: "files (append_all symb (a # as) w) ''trade_log.csv'' =
        Some (HeaderLine ''time,symbol,notional,trade_type,side,status'' #
              map (\<lambda>a. RecordLine (row_of symb a)) (a # as))"
    if "files w ''trade_log.csv'' = None"
    by (simp add: a append_all_existing [OF update_trade_log_fresh [OF that]])
  have t_cnt: "length (filter is_header (file_lines (Trader_append_all self (a # as) w) ''logs/trade_log.csv'')) = 1"
    if "files w ''logs/trade_log.csv'' = None"
    using filter_header_rows [of "row_of (symbol self)" as]
    by (simp add: file_lines_def t_all [OF that, simplified] del: Trader_append_all.simps)
  have m_cnt: "length (filter is_header (file_lines (append_all symb (a # as) w) ''trade_log.csv'')) = 1"
    if "files w ''trade_log.csv'' = None"
    using filter_header_rows [of "row_of symb" as]
    by (simp add: file_lines_def m_all [OF that, simplified] del: append_all.simps)
  show ?thesis
    using t_all t_cnt m_all m_cnt
      Trader_update_trade_log_fresh [of w self amount trade_type side st]
      Trader_update_trade_log_existing [of w ls self amount trade_type side st]
      update_trade_log_fresh [of w symb amount trade_type side st]
      update_trade_log_existing [of w ls symb amount trade_type side st]
    by blast
qed

theorem ledger_header_once_witness:
  "files (Trader_append_all (trader_voo 300)
      [(Some 750, ''NOTIONAL'', BUY, ''FILLED''), (Some 1, ''FRACTIONAL'', SELL, ''CANCELLED'')]
      fresh_world) ''logs/trade_log.csv'' =
     Some [HeaderLine ''timestamp,symbol,amount,trade_type,side,status'',
           RecordLine \<lparr>tr_symbol = ''VOO'', tr_amount = Some 750, tr_trade_type = ''NOTIONAL'',
             tr_side = BUY, tr_status = ''FILLED''\<rparr>,
           RecordLine \<lparr>tr_symbol = ''VOO'', tr_amount = Some 1, tr_trade_type = ''FRACTIONAL'',
             tr_side = SELL, tr_status = ''CANCELLED''\<rparr>]
 \<and> files (append_all ''VOO''
      [(Some 750, ''NOTIONAL'', BUY, ''FILLED''), (Some 1, ''FRACTIONAL'', SELL, ''CANCELLED'')]
      fresh_world) ''trade_log.csv'' =
     Some [HeaderLine ''time,symbol,notional,trade_type,side,status'',
           RecordLine \<lparr>tr_symbol = ''VOO'', tr_amount = Some 750, tr_trade_type = ''NOTIONAL'',
             tr_side = BUY, tr_status = ''FILLED''\<rparr>,
           RecordLine \<lparr>tr_symbol = ''VOO'', tr_amount = Some 1, tr_trade_type = ''FRACTIONAL'',
             tr_side = SELL, tr_status = ''CANCELLED''\<rparr>]"
proof -
  have h: "files fresh_world ''logs/trade_log.csv'' = None" "files fresh_world ''trade_log.csv'' = None"
    by (simp_all add: fresh_world_def)
  show ?thesis
    using ledger_header_once [where w = fresh_world and self = "trader_voo 300" and symb = "''VOO''"
        and a = "(Some 750, ''NOTIONAL'', BUY, ''FILLED'')"
        and as = "[(Some 1, ''FRACTIONAL'', SELL, ''CANCELLED'')]"] h
    by (simp add: row_of_def trader_voo_def del: Trader_append_all.simps append_all.simps)
qed

section \<open>Order executor: results\<close>

text \<open>The three ways in which one turn of the poll loop goes on.\<close>

lemma monitor_loop_stop:
  "status ord = ''filled'' \<or> r \<le> 0 \<Longrightarrow> monitor_loop e ord r k w = (Inr ord, w)"
  by (subst monitor_loop.simps) auto

lemma monitor_loop_raise:
  "status ord \<noteq> ''filled'' \<Longrightarrow> 0 < r \<Longrightarrow> get_order_by_id e k = Inl err \<Longrightarrow>
   monitor_loop e ord r k w =
     (Inl err, w\<lparr>calls := calls w @ [Sleep 60, GetOrderById (order_id ord)]\<rparr>)"
  by (subst monitor_loop.simps) (simp add: Let_def)

lemma monitor_loop_step:
  "status ord \<noteq> ''filled'' \<Longrightarrow> 0 < r \<Longrightarrow> get_order_by_id e k = Inr st \<Longrightarrow>
   monitor_loop e ord r k w =
     monitor_loop e (ord\<lparr>status := st\<rparr>) (r - 60) (Suc k)
       (w\<lparr>calls := calls w @ [Sleep 60, GetOrderById (order_id ord)]\<rparr>)"
  by (subst monitor_loop.simps) (simp add: Let_def)

lemma monitor_loop_files: "files (snd (monitor_loop e ord r k w)) = files w"
proof (induction e ord r k w rule: monitor_loop.induct)
  case (1 e ord r k w)
  show ?case
  proof (cases "status ord \<noteq> ''filled'' \<and> r > 0")
    case True
    show ?thesis
    proof (cases "get_order_by_id e k")
      case (Inl err)
      with True show ?thesis
        by (simp add: monitor_loop_raise)
    next
      case (Inr st)
      with True "1.IH" [OF True refl Inr] show ?thesis
        by (simp add: monitor_loop_step)
    qed
  next
    case False
    then have "monitor_loop e ord r k w = (Inr ord, w)"
      by (intro monitor_loop_stop) auto
    then show ?thesis
      by simp
  qed
qed

lemma monitor_loop_calls_prefix: "prefix (calls w) (calls (snd (monitor_loop e ord r k w)))"
proof (induction e ord r k w rule: monitor_loop.induct)
  case (1 e ord r k w)
  show ?case
  proof (cases "status ord \<noteq> ''filled'' \<and> r > 0")
    case True
    have "prefix (calls w @ [Sleep 60, GetOrderById (order_id ord)])
            (calls (snd (monitor_loop e ord r k w)))"
    proof (cases "get_order_by_id e k")
      case (Inl err)
      with True show ?thesis
        by (simp add: monitor_loop_raise)
    next
      case (Inr st)
      with True "1.IH" [OF True refl Inr] show ?thesis
        by (simp add: monitor_loop_step)
    qed
    then show ?thesis
      using append_prefixD by blast
  next
    case False
    then have "monitor_loop e ord r k w = (Inr ord, w)"
      by (intro monitor_loop_stop) auto
    then show ?thesis
      by simp
  qed
qed


lemma monitor_loop_pending_120:
  assumes "status ord = ''pending''" and "\<forall>k. get_order_by_id e k = Inr ''pending''"
  shows "monitor_loop e ord 120 0 w =
           (Inr (ord\<lparr>status := ''pending''\<rparr>),
            w\<lparr>calls := calls w @ [Sleep 60, GetOrderById (order_id ord),
                                   Sleep 60, GetOrderById (order_id ord)]\<rparr>)"
  using assms by (simp add: monitor_loop_step monitor_loop_stop)


lemma file_lines_cong: "files w1 = files w \<Longrightarrow> file_lines w1 path = file_lines w path"
  by (simp add: file_lines_def)

lemma Trader_monitor_order_rows:
  assumes "monitor_loop e ord (max_wait self) 0 w = (Inr final, w1)"
  shows "rows_of (file_lines (snd (Trader_monitor_order self e ord amount trade_type side w))
           ''logs/trade_log.csv'') =
         rows_of (file_lines w ''logs/trade_log.csv'') @
           [row_of (symbol self) (amount, trade_type, side,
              if status final \<noteq> ''filled'' then ''CANCELLED'' else ''FILLED'')]"
proof -
  have f: "files w1 = files w"
    using monitor_loop_files [of e ord "max_wait self" 0 w] by (simp add: assms)
  have l: "file_lines (u\<lparr>calls := cs\<rparr>) path = file_lines u path" for u cs path
    by (simp add: file_lines_def)
  show ?thesis
    using Trader_update_trade_log_rows [of self amount trade_type side _ w1]
    by (simp add: Trader_monitor_order_def assms Let_def l file_lines_cong [OF f]
        split: option.splits)
qed

lemma monitor_order_rows:
  assumes "monitor_loop e ord MAX_WAIT 0 w = (Inr final, w1)"
    and "status final = ''filled'' \<or> cancel_order_by_id e (order_id final) = None"
  shows "rows_of (file_lines (snd (monitor_order MAX_WAIT e ord symb amount trade_type side w))
           ''trade_log.csv'') =
         rows_of (file_lines w ''trade_log.csv'') @
           [row_of symb (amount, trade_type, side,
              if status final \<noteq> ''filled'' then ''CANCELLED'' else ''FILLED'')]"
proof -
  have f: "files w1 = files w"
    using monitor_loop_files [of e ord MAX_WAIT 0 w] by (simp add: assms(1))
  have l: "file_lines (w1\<lparr>calls := cs\<rparr>) ''trade_log.csv'' = file_lines w ''trade_log.csv''" for cs
    by (simp add: file_lines_def f)
  show ?thesis
    using assms(2) update_trade_log_rows [of symb amount trade_type side _ w1]
      update_trade_log_rows [of symb amount trade_type side _
        "w1\<lparr>calls := calls w1 @ [CancelOrderById (order_id final)]\<rparr>"]
    by (auto simp: monitor_order_def assms(1) Let_def l file_lines_cong [OF f])
qed



text \<open>
  Claim C3. For a monitored order whose statuses are all \<open>pending\<close> (the status of the
  submitted order and that of every poll), with a maximal wait of 120 seconds and the
  step of 60 seconds, the monitor of either variant sleeps and polls exactly twice,
  issues exactly one cancel request for the order, and adds exactly one row, of status
  CANCELLED, to the trade log. The class writes the row before the cancel request, so
  whatever the brokerage answers to the request; \<open>main.py\<close> writes it after the
  request, when the request is accepted. A refused cancel request is the error of the
  call.
\<close>

theorem monitor_timeout:
  assumes "status ord = ''pending''" and "\<forall>k. get_order_by_id e k = Inr ''pending''"
    and "max_wait self = 120" and "MAX_WAIT = 120"
  shows "(case Trader_monitor_order self e ord amount trade_type side w of (res, w') \<Rightarrow>
            res = (case cancel_order_by_id e (order_id ord) of
                     None \<Rightarrow> Inr False | Some err \<Rightarrow> Inl err)
          \<and> calls w' = calls w @ [Sleep 60, GetOrderById (order_id ord),
                                   Sleep 60, GetOrderById (order_id ord),
                                   CancelOrderById (order_id ord)]
          \<and> rows_of (file_lines w' ''logs/trade_log.csv'') =
              rows_of (file_lines w ''logs/trade_log.csv'') @
                [row_of (symbol self) (amount, trade_type, side, ''CANCELLED'')])
       \<and> (case monitor_order MAX_WAIT e ord symb amount trade_type side w of (res, w') \<Rightarrow>
            res = (case cancel_order_by_id e (order_id ord) of
                     None \<Rightarrow> Inr None | Some err \<Rightarrow> Inl err)
          \<and> calls w' = calls w @ [Sleep 60, GetOrderById (order_id ord),
                                   Sleep 60, GetOrderById (order_id ord),
                                   CancelOrderById (order_id ord)]
          \<and> (cancel_order_by_id e (order_id ord) = None \<longrightarrow>
               rows_of (file_lines w' ''trade_log.csv'') =
                 rows_of (file_lines w ''trade_log.csv'') @
                   [row_of symb (amount, trade_type, side, ''CANCELLED'')]))"
proof -
  note loop = monitor_loop_pending_120 [OF assms(1,2), of w]
  have t_rows: "rows_of (file_lines (snd (Trader_monitor_order self e ord amount trade_type side w))
        ''logs/trade_log.csv'') =
      rows_of (file_lines w ''logs/trade_log.csv'') @
        [row_of (symbol self) (amount, trade_type, side, ''CANCELLED'')]"
    using Trader_monitor_order_rows [of e ord self w, OF loop [folded assms(3)]] by simp
  have t_rest: "fst (Trader_monitor_order self e ord amount trade_type side w) =
        (case cancel_order_by_id e (order_id ord) of None \<Rightarrow> Inr False | Some err \<Rightarrow> Inl err)
      \<and> calls (snd (Trader_monitor_order self e ord amount trade_type side w)) =
          calls w @ [Sleep 60, GetOrderById (order_id ord), Sleep 60, GetOrderById (order_id ord),
                     CancelOrderById (order_id ord)]"
    by (simp add: Trader_monitor_order_def assms(3) loop Let_def Trader_update_trade_log_calls
        split: option.splits)
  have m_rows: "rows_of (file_lines (snd (monitor_order MAX_WAIT e ord symb amount trade_type side w))
        ''trade_log.csv'') =
      rows_of (file_lines w ''trade_log.csv'') @ [row_of symb (amount, trade_type, side, ''CANCELLED'')]"
    if "cancel_order_by_id e (order_id ord) = None"
    using monitor_order_rows [of e ord MAX_WAIT w, OF loop [folded assms(4)]] that by simp
  have m_rest: "fst (monitor_order MAX_WAIT e ord symb amount trade_type side w) =
        (case cancel_order_by_id e (order_id ord) of None \<Rightarrow> Inr None | Some err \<Rightarrow> Inl err)
      \<and> calls (snd (monitor_order MAX_WAIT e ord symb amount trade_type side w)) =
          calls w @ [Sleep 60, GetOrderById (order_id ord), Sleep 60, GetOrderById (order_id ord),
                     CancelOrderById (order_id ord)]"
    by (simp add: monitor_order_def assms(4) loop Let_def update_trade_log_calls
        split: option.splits)
  show ?thesis
    using t_rows t_rest m_rows m_rest by (simp add: case_prod_beta)
qed

theorem monitor_timeout_witness:
  "fst (Trader_monitor_order (trader_voo 120) (session_env [3, 5] 1000 [] accept_pending always_pending)
          pending_order (Some 750) ''NOTIONAL'' BUY fresh_world) = Inr False
 \<and> calls (snd (Trader_monitor_order (trader_voo 120) (session_env [3, 5] 1000 [] accept_pending always_pending)
          pending_order (Some 750) ''NOTIONAL'' BUY fresh_world)) =
      [Sleep 60, GetOrderById 1, Sleep 60, GetOrderById 1, CancelOrderById 1]
 \<and> rows_of (file_lines (snd (Trader_monitor_order (trader_voo 120)
          (session_env [3, 5] 1000 [] accept_pending always_pending)
          pending_order (Some 750) ''NOTIONAL'' BUY fresh_world)) ''logs/trade_log.csv'') =
      [\<lparr>tr_symbol = ''VOO'', tr_amount = Some 750, tr_trade_type = ''NOTIONAL'',
        tr_side = BUY, tr_status = ''CANCELLED''\<rparr>]
 \<and> fst (monitor_order 120 (session_env [3, 5] 1000 [] accept_pending always_pending)
          pending_order ''VOO'' (Some 750) ''NOTIONAL'' BUY fresh_world) = Inr None
 \<and> calls (snd (monitor_order 120 (session_env [3, 5] 1000 [] accept_pending always_pending)
          pending_order ''VOO'' (Some 750) ''NOTIONAL'' BUY fresh_world)) =
      [Sleep 60, GetOrderById 1, Sleep 60, GetOrderById 1, CancelOrderById 1]
 \<and> rows_of (file_lines (snd (monitor_order 120 (session_env [3, 5] 1000 [] accept_pending always_pending)
          pending_order ''VOO'' (Some 750) ''NOTIONAL'' BUY fresh_world)) ''trade_log.csv'') =
      [\<lparr>tr_symbol = ''VOO'', tr_amount = Some 750, tr_trade_type = ''NOTIONAL'',
        tr_side = BUY, tr_status = ''CANCELLED''\<rparr>]"
proof -
  have h1: "status pending_order = ''pending''"
    by (simp add: pending_order_def)
  have h2: "\<forall>k. get_order_by_id (session_env [3, 5] 1000 [] accept_pending always_pending) k =
      Inr ''pending''"
    by (simp add: session_env_def always_pending_def)
  have h3: "max_wait (trader_voo 120) = 120"
    by (simp add: trader_voo_def)
  have c: "cancel_order_by_id (session_env [3, 5] 1000 [] accept_pending always_pending) oid = None"
    for oid
    by (simp add: session_env_def cancel_accepted_def)
  show ?thesis
    using monitor_timeout [OF h1 h2 h3 refl, where amount = "Some 750" and trade_type = "''NOTIONAL''"
        and side = BUY and w = fresh_world and symb = "''VOO''"]
    by (simp add: case_prod_beta c pending_order_def trader_voo_def fresh_world_def
        file_lines_def row_of_def)
qed



text \<open>Two calls of a monitor that add no row. In the first the brokerage cancels the
  order by itself: the order is submitted as pending, every poll reports \<open>canceled\<close>,
  the cancel request made when the wait has run out is refused, and \<open>monitor_order\<close>
  of \<open>main.py\<close>, which cancels before it writes, ends with the error and no trade log.
  In the second the first poll raises, and \<open>_monitor_order\<close> of the class ends before it
  writes.\<close>

theorem monitor_without_append:
  "fst (monitor_order 120 ((session_env [3, 5] 1000 [] accept_pending always_canceled)
          \<lparr>cancel_order_by_id := cancel_refused\<rparr>)
          pending_order ''VOO'' (Some 750) ''NOTIONAL'' BUY fresh_world) = Inl APIError
 \<and> calls (snd (monitor_order 120 ((session_env [3, 5] 1000 [] accept_pending always_canceled)
          \<lparr>cancel_order_by_id := cancel_refused\<rparr>)
          pending_order ''VOO'' (Some 750) ''NOTIONAL'' BUY fresh_world)) =
      [Sleep 60, GetOrderById 1, Sleep 60, GetOrderById 1, CancelOrderById 1]
 \<and> files (snd (monitor_order 120 ((session_env [3, 5] 1000 [] accept_pending always_canceled)
          \<lparr>cancel_order_by_id := cancel_refused\<rparr>)
          pending_order ''VOO'' (Some 750) ''NOTIONAL'' BUY fresh_world)) ''trade_log.csv'' = None
 \<and> fst (Trader_monitor_order (trader_voo 300) (session_env [3, 5] 1000 [] accept_pending poll_raises)
          pending_order (Some 750) ''NOTIONAL'' BUY fresh_world) = Inl APIError
 \<and> calls (snd (Trader_monitor_order (trader_voo 300)
          (session_env [3, 5] 1000 [] accept_pending poll_raises)
          pending_order (Some 750) ''NOTIONAL'' BUY fresh_world)) = [Sleep 60, GetOrderById 1]
 \<and> files (snd (Trader_monitor_order (trader_voo 300)
          (session_env [3, 5] 1000 [] accept_pending poll_raises)
          pending_order (Some 750) ''NOTIONAL'' BUY fresh_world)) ''logs/trade_log.csv'' = None"
  by (simp add: monitor_order_def Trader_monitor_order_def monitor_loop_step monitor_loop_stop
      monitor_loop_raise session_env_def always_canceled_def poll_raises_def
      pending_order_def cancel_refused_def trader_voo_def fresh_world_def Let_def)

lemma Trader_monitor_order_calls_prefix:
  "prefix (calls w) (calls (snd (Trader_monitor_order self e ord amount trade_type side w)))"
proof -
  obtain res w1 where m: "monitor_loop e ord (max_wait self) 0 w = (res, w1)"
    by (cases "monitor_loop e ord (max_wait self) 0 w")
  have "prefix (calls w) (calls w1)"
    using monitor_loop_calls_prefix [of w e ord "max_wait self" 0] by (simp add: m)
  then show ?thesis
    by (cases res)
      (auto simp: Trader_monitor_order_def m Let_def Trader_update_trade_log_calls
        split: option.splits intro: prefix_order.trans)
qed

lemma monitor_order_calls_prefix:
  "prefix (calls w) (calls (snd (monitor_order MAX_WAIT e ord symb amount trade_type side w)))"
proof -
  obtain res w1 where m: "monitor_loop e ord MAX_WAIT 0 w = (res, w1)"
    by (cases "monitor_loop e ord MAX_WAIT 0 w")
  have "prefix (calls w) (calls w1)"
    using monitor_loop_calls_prefix [of w e ord MAX_WAIT 0] by (simp add: m)
  then show ?thesis
    by (cases res)
      (auto simp: monitor_order_def m Let_def update_trade_log_calls
        split: option.splits intro: prefix_order.trans)
qed

lemma request_params_notional:
  "truthy notional \<Longrightarrow>
   request_params symb side qty notional =
     Inr \<lparr>req_symbol = symb, req_side = side, req_type = MARKET, req_time_in_force = DAY,
          req_notional = notional, req_qty = None\<rparr>"
  by (simp add: request_params_def)

lemma Trader_place_order_submits:
  assumes "request_params (symbol self) side qty notional = Inr request"
  shows "prefix (calls w @ [SubmitOrder request])
           (calls (snd (Trader_place_order self e qty notional side w)))"
proof (cases "submit_order e request")
  case (Inl err)
  then show ?thesis
    by (simp add: Trader_place_order_def assms)
next
  case (Inr ord)
  then show ?thesis
    using Trader_monitor_order_calls_prefix
      [of "w\<lparr>calls := calls w @ [SubmitOrder request]\<rparr>" self e ord]
    by (simp add: Trader_place_order_def assms)
qed

lemma place_order_submits:
  assumes "request_params symb side qty notional = Inr request"
  shows "prefix (calls w @ [SubmitOrder request])
           (calls (snd (place_order MAX_WAIT e symb qty notional side w)))"
proof (cases "submit_order e request")
  case (Inl err)
  then show ?thesis
    by (simp add: place_order_def assms)
next
  case (Inr ord)
  then show ?thesis
    using monitor_order_calls_prefix
      [of "w\<lparr>calls := calls w @ [SubmitOrder request]\<rparr>" MAX_WAIT e ord symb]
    by (simp add: place_order_def assms)
qed

text \<open>
  Claim C8, as the code has it. When neither a quantity nor a notional amount is given,
  the order placement raises \<open>ValueError\<close> and submits nothing. When both are given
  (and are not zero), the call is not rejected: an order is submitted, sized by the
  notional amount alone, the quantity left out of the request.
\<close>

theorem place_order_sizing_modes:
  "(Trader_place_order self e None None side w = (Inl ValueError, w)
    \<and> place_order MAX_WAIT e symb None None side w = (Inl ValueError, w))
 \<and> (truthy qty \<and> truthy notional \<longrightarrow>
      prefix (calls w @ [SubmitOrder \<lparr>req_symbol = symbol self, req_side = side, req_type = MARKET,
                req_time_in_force = DAY, req_notional = notional, req_qty = None\<rparr>])
        (calls (snd (Trader_place_order self e qty notional side w)))
    \<and> prefix (calls w @ [SubmitOrder \<lparr>req_symbol = symb, req_side = side, req_type = MARKET,
                req_time_in_force = DAY, req_notional = notional, req_qty = None\<rparr>])
        (calls (snd (place_order MAX_WAIT e symb qty notional side w))))"
proof -
  have none: "request_params s side None None = Inl ValueError" for s
    by (simp add: request_params_def truthy_def)
  have "Trader_place_order self e None None side w = (Inl ValueError, w)"
    "place_order MAX_WAIT e symb None None side w = (Inl ValueError, w)"
    by (simp_all add: Trader_place_order_def place_order_def none)
  moreover have "prefix (calls w @ [SubmitOrder \<lparr>req_symbol = symbol self, req_side = side,
                req_type = MARKET, req_time_in_force = DAY, req_notional = notional, req_qty = None\<rparr>])
        (calls (snd (Trader_place_order self e qty notional side w)))" if "truthy notional"
    by (rule Trader_place_order_submits [OF request_params_notional [OF that]])
  moreover have "prefix (calls w @ [SubmitOrder \<lparr>req_symbol = symb, req_side = side,
                req_type = MARKET, req_time_in_force = DAY, req_notional = notional, req_qty = None\<rparr>])
        (calls (snd (place_order MAX_WAIT e symb qty notional side w)))" if "truthy notional"
    by (rule place_order_submits [OF request_params_notional [OF that]])
  ultimately show ?thesis
    by simp
qed

theorem place_order_sizing_modes_witness:
  "Trader_place_order (trader_voo 300) (session_env [3, 5] 1000 [] accept_pending always_pending)
     None None SELL fresh_world = (Inl ValueError, fresh_world)
 \<and> place_order 300 (session_env [3, 5] 1000 [] accept_pending always_pending) ''VOO''
     None None SELL fresh_world = (Inl ValueError, fresh_world)
 \<and> prefix [SubmitOrder \<lparr>req_symbol = ''VOO'', req_side = SELL, req_type = MARKET,
              req_time_in_force = DAY, req_notional = Some 50, req_qty = None\<rparr>]
      (calls (snd (Trader_place_order (trader_voo 300)
         (session_env [3, 5] 1000 [] accept_pending always_pending) (Some 3) (Some 50) SELL fresh_world)))
 \<and> prefix [SubmitOrder \<lparr>req_symbol = ''VOO'', req_side = SELL, req_type = MARKET,
              req_time_in_force = DAY, req_notional = Some 50, req_qty = None\<rparr>]
      (calls (snd (place_order 300
         (session_env [3, 5] 1000 [] accept_pending always_pending) ''VOO'' (Some 3) (Some 50) SELL
         fresh_world)))"
  using place_order_sizing_modes [where self = "trader_voo 300"
      and e = "session_env [3, 5] 1000 [] accept_pending always_pending" and side = SELL
      and w = fresh_world and MAX_WAIT = 300 and symb = "''VOO''" and qty = "Some 3"
      and notional = "Some 50"]
  by (simp add: truthy_def trader_voo_def fresh_world_def)

text \<open>With a quantity of 2 and a notional of 100 both given, neither variant rejects
  the call: the order is submitted with the notional, and the call returns.\<close>

theorem place_order_both_given:
  "fst (Trader_place_order (trader_voo 300) (session_env [3, 5] 1000 [] accept_filled always_pending)
         (Some 2) (Some 100) BUY fresh_world) = Inr True
   \<and> calls (snd (Trader_place_order (trader_voo 300) (session_env [3, 5] 1000 [] accept_filled always_pending)
         (Some 2) (Some 100) BUY fresh_world)) =
       [SubmitOrder \<lparr>req_symbol = ''VOO'', req_side = BUY,
          req_type = MARKET, req_time_in_force = DAY, req_notional = Some 100, req_qty = None\<rparr>]
   \<and> fst (place_order 300 (session_env [3, 5] 1000 [] accept_filled always_pending) ''VOO''
         (Some 2) (Some 100) BUY fresh_world) = Inr (Some \<lparr>order_id = 1, status = ''filled''\<rparr>)
   \<and> calls (snd (place_order 300 (session_env [3, 5] 1000 [] accept_filled always_pending) ''VOO''
         (Some 2) (Some 100) BUY fresh_world)) =
       [SubmitOrder \<lparr>req_symbol = ''VOO'', req_side = BUY,
          req_type = MARKET, req_time_in_force = DAY, req_notional = Some 100, req_qty = None\<rparr>]"
  by (simp add: Trader_place_order_def place_order_def request_params_def truthy_def
      session_env_def accept_filled_def trader_voo_def Trader_monitor_order_def monitor_order_def
      monitor_loop_stop Trader_update_trade_log_calls update_trade_log_calls fresh_world_def Let_def)

text \<open>
  Claim C10. For every call of the order placement in which the notional is \<open>0.0\<close> or
  \<open>None\<close> and the quantity is \<open>0.0\<close> or \<open>None\<close>, the call raises \<open>ValueError\<close> and leaves the
  world as it was, so that no order is submitted: a BUY sized from a cash of zero and a
  SELL sized from a position of zero shares raise, in \<open>_place_order\<close> and in the pass of
  \<open>run\<close> that makes the call.
\<close>

theorem place_order_zero_or_none:
  assumes "notional = None \<or> notional = Some 0" and "qty = None \<or> qty = Some 0"
  shows "Trader_place_order self e qty notional side w = (Inl ValueError, w)
       \<and> place_order MAX_WAIT e symb qty notional side w = (Inl ValueError, w)
       \<and> Trader_place_order self e None (Some (0 * multiplier)) BUY w = (Inl ValueError, w)
       \<and> Trader_place_order self e (Some (0 * multiplier)) None SELL w = (Inl ValueError, w)
       \<and> (Trader_clock_branch self (now e) = MarketOpen
            \<and> make_decision (closing_5d e) (closing_20d e) = Inr (Some BUY, multiplier)
            \<and> cash e = 0 \<longrightarrow>
          Trader_run_pass self e w = (Inl ValueError, w))
       \<and> (Trader_clock_branch self (now e) = MarketOpen
            \<and> make_decision (closing_5d e) (closing_20d e) = Inr (Some SELL, multiplier)
            \<and> filter (\<lambda>pos. pos_symbol pos = symbol self) (get_all_positions e) = p # ps
            \<and> pos_qty p = 0 \<longrightarrow>
          Trader_run_pass self e w = (Inl ValueError, w))"
proof -
  have "\<not> truthy notional" and "\<not> truthy qty"
    using assms by (auto simp: truthy_def)
  then have "request_params s side qty notional = Inl ValueError" for s
    by (simp add: request_params_def)
  moreover have "request_params s sd None (Some (0 * multiplier)) = Inl ValueError"
    "request_params s sd (Some (0 * multiplier)) None = Inl ValueError" for s sd
    by (simp_all add: request_params_def truthy_def)
  moreover have "Trader_run_pass self e w = (Inl ValueError, w)"
    if "Trader_clock_branch self (now e) = MarketOpen"
      and "make_decision (closing_5d e) (closing_20d e) = Inr (Some BUY, multiplier)"
      and "cash e = 0"
    using that
    by (simp add: Trader_run_pass_def Trader_order_args_def Trader_place_order_def
        request_params_def truthy_def)
  moreover have "Trader_run_pass self e w = (Inl ValueError, w)"
    if "Trader_clock_branch self (now e) = MarketOpen"
      and "make_decision (closing_5d e) (closing_20d e) = Inr (Some SELL, multiplier)"
      and "filter (\<lambda>pos. pos_symbol pos = symbol self) (get_all_positions e) = p # ps"
      and "pos_qty p = 0"
    using that
    by (simp add: Trader_run_pass_def Trader_order_args_def Trader_place_order_def
        request_params_def truthy_def)
  ultimately show ?thesis
    by (simp add: Trader_place_order_def place_order_def)
qed

theorem place_order_zero_or_none_witness:
  "Trader_place_order (trader_voo 300) (session_env [3, 5] 0 [] accept_filled always_pending)
     None (Some 0) BUY fresh_world = (Inl ValueError, fresh_world)
 \<and> place_order 300 (session_env [3, 5] 0 [] accept_filled always_pending) ''VOO''
     None (Some 0) BUY fresh_world = (Inl ValueError, fresh_world)"
  using place_order_zero_or_none [where notional = "Some 0" and qty = None
      and self = "trader_voo 300" and e = "session_env [3, 5] 0 [] accept_filled always_pending"
      and side = BUY and w = fresh_world and MAX_WAIT = 300 and symb = "''VOO''"
      and multiplier = "0.75"
      and p = "\<lparr>pos_symbol = ''VOO'', pos_qty = 0\<rparr>" and ps = "[]"]
  by simp

section \<open>Scheduler loop: results\<close>

text \<open>
  Claim C5, as the code has it. For every pass in session whose order submission the
  brokerage rejects (\<open>submit_order\<close> raises), the submission is attempted once, no row
  is written to the trade log, and the error leaves \<open>_place_order\<close> and \<open>run\<close> uncaught:
  the scheduler loop ends with that error and makes no further pass.
\<close>

theorem submit_rejected:
  assumes "Trader_clock_branch self (now e) = MarketOpen"
    and "make_decision (closing_5d e) (closing_20d e) = Inr (side, multiplier)"
    and "Trader_order_args self e side multiplier = Some a"
    and "request_params (symbol self) (arg_side a) (arg_qty a) (arg_notional a) = Inr request"
    and "submit_order e request = Inl err"
  shows "Trader_run self (e # es) w = Raised err (w\<lparr>calls := calls w @ [SubmitOrder request]\<rparr>)
       \<and> Trader_run_pass self e w = (Inl err, w\<lparr>calls := calls w @ [SubmitOrder request]\<rparr>)
       \<and> files (w\<lparr>calls := calls w @ [SubmitOrder request]\<rparr>) = files w"
proof -
  have "Trader_place_order self e (arg_qty a) (arg_notional a) (arg_side a) w =
          (Inl err, w\<lparr>calls := calls w @ [SubmitOrder request]\<rparr>)"
    by (simp add: Trader_place_order_def assms(4,5))
  then have "Trader_run_pass self e w = (Inl err, w\<lparr>calls := calls w @ [SubmitOrder request]\<rparr>)"
    by (simp add: Trader_run_pass_def assms(1,2,3))
  then show ?thesis by simp
qed

theorem submit_rejected_witness:
  "Trader_run (trader_voo 300)
     [session_env [1, 2] 1000 [\<lparr>pos_symbol = ''VOO'', pos_qty = 10\<rparr>] reject always_pending]
     fresh_world
   = Raised APIError (fresh_world\<lparr>calls := [SubmitOrder \<lparr>req_symbol = ''VOO'', req_side = SELL,
        req_type = MARKET, req_time_in_force = DAY, req_notional = None, req_qty = Some 1\<rparr>]\<rparr>)"
proof -
  let ?e = "session_env [1, 2] 1000 [\<lparr>pos_symbol = ''VOO'', pos_qty = 10\<rparr>] reject always_pending"
  let ?a = "\<lparr>arg_qty = Some 1, arg_notional = None, arg_side = SELL\<rparr>"
  let ?r = "\<lparr>req_symbol = ''VOO'', req_side = SELL,
        req_type = MARKET, req_time_in_force = DAY, req_notional = None, req_qty = Some 1\<rparr>"
  have h1: "Trader_clock_branch (trader_voo 300) (now ?e) = MarketOpen"
    by (simp add: Trader_clock_branch_def weekday_def time_of_def session_env_def
        monday_1000_def trader_voo_def)
  have h2: "make_decision (closing_5d ?e) (closing_20d ?e) = Inr (Some SELL, 0.10)"
    by (simp add: make_decision_small session_env_def)
  have h3: "Trader_order_args (trader_voo 300) ?e (Some SELL) 0.10 = Some ?a"
    by (simp add: Trader_order_args_def session_env_def trader_voo_def)
  have h4: "request_params (symbol (trader_voo 300)) (arg_side ?a) (arg_qty ?a) (arg_notional ?a) = Inr ?r"
    by (simp add: request_params_def truthy_def trader_voo_def)
  have h5: "submit_order ?e ?r = Inl APIError"
    by (simp add: session_env_def reject_def)
  show ?thesis
    using submit_rejected [OF h1 h2 h3 h4 h5, where es = "[]" and w = fresh_world]
    by (simp add: fresh_world_def)
qed

text \<open>Two passes in session are offered and the brokerage rejects the order of the first:
  \<open>run\<close> ends with the error of the brokerage after the one submission, and the second
  pass is not made.\<close>

theorem submit_rejected_ends_run:
  "Trader_run (trader_voo 300) [session_env [3, 5] 1000 [] reject always_pending,
         session_env [3, 5] 1000 [] accept_filled always_pending] fresh_world
     = Raised APIError (fresh_world\<lparr>calls := [SubmitOrder \<lparr>req_symbol = ''VOO'', req_side = BUY,
          req_type = MARKET, req_time_in_force = DAY, req_notional = Some 750, req_qty = None\<rparr>]\<rparr>)"
  by (simp add: Trader_run_pass_def Trader_clock_branch_def weekday_def time_of_def
      session_env_def monday_1000_def trader_voo_def make_decision_small
      Trader_order_args_def Trader_place_order_def request_params_def truthy_def reject_def
      fresh_world_def)

lemma Trader_next_open_MarketOpen:
  "Trader_clock_branch self t = MarketOpen \<Longrightarrow> Trader_next_open self t = plus_days t 2"
  by (simp add: Trader_next_open_def)

text \<open>
  Claim C7. In every pass in session, a BUY is placed with the notional
  \<open>cash * multiplier\<close> (a cash of 1000 with the multiplier 0.75 gives 750) and a SELL
  with the quantity \<open>position quantity * multiplier\<close> (10 shares with the multiplier
  0.10 give 1), for the first position of the symbol; on a SELL without a position of
  the symbol no order is placed in that pass, which only sleeps. In \<open>main.py\<close> the
  multipliers are the constants 0.4 and 0.3.
\<close>

theorem run_sizing:
  assumes "Trader_clock_branch self (now e) = MarketOpen"
  shows "(make_decision (closing_5d e) (closing_20d e) = Inr (Some BUY, multiplier) \<longrightarrow>
            Trader_run_pass self e w =
              (case Trader_place_order self e None (Some (cash e * multiplier)) BUY w of
                 (Inl err, w') \<Rightarrow> (Inl err, w')
               | (Inr filled, w') \<Rightarrow> (Inr (), Trader_sleep self (now e) w')))
       \<and> (make_decision (closing_5d e) (closing_20d e) = Inr (Some SELL, multiplier)
            \<and> filter (\<lambda>pos. pos_symbol pos = symbol self) (get_all_positions e) = p # ps \<longrightarrow>
            Trader_run_pass self e w =
              (case Trader_place_order self e (Some (pos_qty p * multiplier)) None SELL w of
                 (Inl err, w') \<Rightarrow> (Inl err, w')
               | (Inr filled, w') \<Rightarrow> (Inr (), Trader_sleep self (now e) w')))
       \<and> (make_decision (closing_5d e) (closing_20d e) = Inr (Some SELL, multiplier)
            \<and> filter (\<lambda>pos. pos_symbol pos = symbol self) (get_all_positions e) = [] \<longrightarrow>
            Trader_run_pass self e w =
              (Inr (), w\<lparr>calls := calls w @
                 [Sleep (if \<not> quick_test self then total_seconds (plus_days (now e) 2) (now e) else 60)]\<rparr>))
       \<and> (cash e = 1000 \<longrightarrow>
            Trader_order_args self e (Some BUY) 0.75 =
              Some \<lparr>arg_qty = None, arg_notional = Some 750, arg_side = BUY\<rparr>)
       \<and> (filter (\<lambda>pos. pos_symbol pos = symbol self) (get_all_positions e) = p # ps \<and> pos_qty p = 10 \<longrightarrow>
            Trader_order_args self e (Some SELL) 0.10 =
              Some \<lparr>arg_qty = Some 1, arg_notional = None, arg_side = SELL\<rparr>)
       \<and> (random_choice e \<longrightarrow>
            execute_daily_trade_strategy MAX_WAIT e symb w =
              (case place_order MAX_WAIT e symb None (Some (cash e * 0.4)) BUY
                      (w\<lparr>calls := calls w @ [CancelOrders]\<rparr>) of
                 (Inl err, w') \<Rightarrow> (Inl err, w')
               | (Inr res, w') \<Rightarrow> (Inr (), w')))
       \<and> (\<not> random_choice e \<and> get_position e symb = Some p \<longrightarrow>
            execute_daily_trade_strategy MAX_WAIT e symb w =
              (case place_order MAX_WAIT e symb (Some (pos_qty p * 0.3)) None SELL
                      (w\<lparr>calls := calls w @ [CancelOrders]\<rparr>) of
                 (Inl err, w') \<Rightarrow> (Inl err, w')
               | (Inr res, w') \<Rightarrow> (Inr (), w')))
       \<and> (\<not> random_choice e \<and> get_position e symb = None \<longrightarrow>
            execute_daily_trade_strategy MAX_WAIT e symb w =
              (Inr (), w\<lparr>calls := calls w @ [CancelOrders]\<rparr>))"
proof -
  have buy: "Trader_order_args self e (Some BUY) m =
      Some \<lparr>arg_qty = None, arg_notional = Some (cash e * m), arg_side = BUY\<rparr>" for m
    by (simp add: Trader_order_args_def)
  have sell: "Trader_order_args self e (Some SELL) m =
      Some \<lparr>arg_qty = Some (pos_qty p * m), arg_notional = None, arg_side = SELL\<rparr>"
    if "filter (\<lambda>pos. pos_symbol pos = symbol self) (get_all_positions e) = p # ps" for m
    by (simp add: Trader_order_args_def that)
  have nopos: "Trader_order_args self e (Some SELL) m = None"
    if "filter (\<lambda>pos. pos_symbol pos = symbol self) (get_all_positions e) = []" for m
    by (simp add: Trader_order_args_def that)
  have sleep: "Trader_sleep self (now e) w = w\<lparr>calls := calls w @
      [Sleep (if \<not> quick_test self then total_seconds (plus_days (now e) 2) (now e) else 60)]\<rparr>"
    by (simp add: Trader_sleep_def Trader_next_open_MarketOpen [OF assms])
  have c1: "make_decision (closing_5d e) (closing_20d e) = Inr (Some BUY, multiplier) \<longrightarrow>
            Trader_run_pass self e w =
              (case Trader_place_order self e None (Some (cash e * multiplier)) BUY w of
                 (Inl err, w') \<Rightarrow> (Inl err, w')
               | (Inr filled, w') \<Rightarrow> (Inr (), Trader_sleep self (now e) w'))"
    by (simp add: Trader_run_pass_def assms buy)
  have c2: "make_decision (closing_5d e) (closing_20d e) = Inr (Some SELL, multiplier)
            \<and> filter (\<lambda>pos. pos_symbol pos = symbol self) (get_all_positions e) = p # ps \<longrightarrow>
            Trader_run_pass self e w =
              (case Trader_place_order self e (Some (pos_qty p * multiplier)) None SELL w of
                 (Inl err, w') \<Rightarrow> (Inl err, w')
               | (Inr filled, w') \<Rightarrow> (Inr (), Trader_sleep self (now e) w'))"
    by (simp add: Trader_run_pass_def assms sell)
  have c3: "make_decision (closing_5d e) (closing_20d e) = Inr (Some SELL, multiplier)
            \<and> filter (\<lambda>pos. pos_symbol pos = symbol self) (get_all_positions e) = [] \<longrightarrow>
            Trader_run_pass self e w =
              (Inr (), w\<lparr>calls := calls w @
                 [Sleep (if \<not> quick_test self then total_seconds (plus_days (now e) 2) (now e) else 60)]\<rparr>)"
    using sleep by (simp add: Trader_run_pass_def assms nopos)
  have c4: "cash e = 1000 \<longrightarrow>
            Trader_order_args self e (Some BUY) 0.75 =
              Some \<lparr>arg_qty = None, arg_notional = Some 750, arg_side = BUY\<rparr>"
    by (simp add: buy)
  have c5: "filter (\<lambda>pos. pos_symbol pos = symbol self) (get_all_positions e) = p # ps \<and> pos_qty p = 10 \<longrightarrow>
            Trader_order_args self e (Some SELL) 0.10 =
              Some \<lparr>arg_qty = Some 1, arg_notional = None, arg_side = SELL\<rparr>"
    by (simp add: sell)
  have c6: "random_choice e \<longrightarrow>
            execute_daily_trade_strategy MAX_WAIT e symb w =
              (case place_order MAX_WAIT e symb None (Some (cash e * 0.4)) BUY
                      (w\<lparr>calls := calls w @ [CancelOrders]\<rparr>) of
                 (Inl err, w') \<Rightarrow> (Inl err, w')
               | (Inr res, w') \<Rightarrow> (Inr (), w'))"
    by (simp add: execute_daily_trade_strategy_def)
  have c7: "\<not> random_choice e \<and> get_position e symb = Some p \<longrightarrow>
            execute_daily_trade_strategy MAX_WAIT e symb w =
              (case place_order MAX_WAIT e symb (Some (pos_qty p * 0.3)) None SELL
                      (w\<lparr>calls := calls w @ [CancelOrders]\<rparr>) of
                 (Inl err, w') \<Rightarrow> (Inl err, w')
               | (Inr res, w') \<Rightarrow> (Inr (), w'))"
    by (simp add: execute_daily_trade_strategy_def)
  have c8: "\<not> random_choice e \<and> get_position e symb = None \<longrightarrow>
            execute_daily_trade_strategy MAX_WAIT e symb w =
              (Inr (), w\<lparr>calls := calls w @ [CancelOrders]\<rparr>)"
    by (simp add: execute_daily_trade_strategy_def)
  show ?thesis
    using c1 c2 c3 c4 c5 c6 c7 c8 by blast
qed

theorem run_sizing_witness:
  "Trader_order_args (trader_voo 300) (session_env [3, 5] 1000 [] accept_filled always_pending)
     (Some BUY) 0.75 = Some \<lparr>arg_qty = None, arg_notional = Some 750, arg_side = BUY\<rparr>
 \<and> Trader_run_pass (trader_voo 300) (session_env [1, 2] 1000 [] accept_filled always_pending)
     fresh_world = (Inr (), fresh_world\<lparr>calls := [Sleep 172800]\<rparr>)"
proof -
  have h: "Trader_clock_branch (trader_voo 300)
      (now (session_env sp 1000 [] accept_filled always_pending)) = MarketOpen" for sp
    by (simp add: Trader_clock_branch_def weekday_def time_of_def session_env_def
        monday_1000_def trader_voo_def)
  have d: "make_decision (closing_5d (session_env [1, 2] 1000 [] accept_filled always_pending))
      (closing_20d (session_env [1, 2] 1000 [] accept_filled always_pending)) = Inr (Some SELL, 0.10)"
    by (simp add: make_decision_small session_env_def)
  have c: "cash (session_env [3, 5] 1000 [] accept_filled always_pending) = 1000"
    "get_all_positions (session_env [1, 2] 1000 [] accept_filled always_pending) = []"
    "now (session_env [1, 2] 1000 [] accept_filled always_pending) = monday_1000"
    "\<not> quick_test (trader_voo 300)"
    by (simp_all add: session_env_def trader_voo_def)
  have s: "total_seconds (plus_days monday_1000 2) monday_1000 = 172800"
    by (simp add: total_seconds_def plus_days_def monday_1000_def seconds_of_day_def)
  show ?thesis
    using run_sizing [OF h [of "[3, 5]"], where multiplier = "0.10" and w = fresh_world
        and MAX_WAIT = 300 and symb = "''VOO''" and p = "\<lparr>pos_symbol = ''VOO'', pos_qty = 10\<rparr>"
        and ps = "[]"]
      run_sizing [OF h [of "[1, 2]"], where multiplier = "0.10" and w = fresh_world
        and MAX_WAIT = 300 and symb = "''VOO''" and p = "\<lparr>pos_symbol = ''VOO'', pos_qty = 10\<rparr>"
        and ps = "[]"]
    by (simp add: d c s fresh_world_def)
qed

lemma weekday_plus_days_sat:
  "weekday t = 5 \<Longrightarrow> weekday (plus_days t 1) = 6 \<and> weekday (plus_days t 2) = 0"
  unfolding weekday_def plus_days_def by simp presburger

lemma run_trade_loop_pass_sleeps:
  "run_trade_loop_wake (now e) = Some d \<Longrightarrow>
   run_trade_loop_pass MAX_WAIT e symb w =
     (Inr (), w\<lparr>calls := calls w @ [Sleep (total_seconds d (now e))]\<rparr>)"
  by (auto simp: run_trade_loop_wake_def run_trade_loop_pass_def split: if_splits)

lemma Trader_run_pass_sleeps:
  "Trader_clock_branch self (now e) \<noteq> MarketOpen \<Longrightarrow>
   Trader_run_pass self e w = (Inr (), Trader_sleep self (now e) w)"
  by (cases "Trader_clock_branch self (now e)") (simp_all add: Trader_run_pass_def)

text \<open>
  Claim C6, as the code has it. For every Saturday reading (outside the quick test),
  one computation of the next wake yields an instant of the next calendar day, the
  Sunday, and a second computation from there an instant of the Monday; in \<open>main.py\<close>
  both instants are at 09:30:00 local. For every reading of a weekday (Monday to
  Friday) at 08:00 local (outside the quick test), the next wake is 09:30:00 of the
  same day, the microsecond carried over.
\<close>

theorem next_wake:
  "(weekday t = 5 \<and> \<not> quick_test self \<longrightarrow>
       ordinal (Trader_next_open self t) = ordinal t + 1
     \<and> weekday (Trader_next_open self t) = 6
     \<and> ordinal (Trader_next_open self (Trader_next_open self t)) = ordinal t + 2
     \<and> weekday (Trader_next_open self (Trader_next_open self t)) = 0)
 \<and> (weekday t = 5 \<longrightarrow>
       run_trade_loop_wake t = Some (replace_0930 (plus_days t 1))
     \<and> weekday (replace_0930 (plus_days t 1)) = 6
     \<and> run_trade_loop_wake (replace_0930 (plus_days t 1)) = Some (replace_0930 (plus_days t 2))
     \<and> weekday (replace_0930 (plus_days t 2)) = 0
     \<and> time_of (replace_0930 (plus_days t 2)) = (9, 30, 0, microsecond t))
 \<and> (weekday t < 5 \<and> hour t = 8 \<and> minute t = 0 \<and> \<not> quick_test self \<longrightarrow>
       Trader_next_open self t = t\<lparr>hour := 9, minute := 30, second := 0\<rparr>)
 \<and> (weekday t < 5 \<and> hour t = 8 \<and> minute t = 0 \<longrightarrow>
       run_trade_loop_wake t = Some (t\<lparr>hour := 9, minute := 30, second := 0\<rparr>))"
proof -
  have sat: "weekday (plus_days t 1) = 6 \<and> weekday (plus_days t 2) = 0" if "weekday t = 5"
    by (rule weekday_plus_days_sat [OF that])
  have wr: "weekday (replace_0930 d) = weekday d" for d
    by (simp add: weekday_def replace_0930_def)
  have t1: "Trader_next_open self t = plus_days t 1" if "weekday t = 5" "\<not> quick_test self"
    using that by (simp add: Trader_next_open_def Trader_clock_branch_def)
  have t2: "Trader_next_open self (plus_days t 1) = plus_days t 2" if "weekday t = 5" "\<not> quick_test self"
    using that sat [OF that(1)]
    by (simp add: Trader_next_open_def Trader_clock_branch_def plus_days_def)
  have a: "weekday t = 5 \<and> \<not> quick_test self \<longrightarrow>
       ordinal (Trader_next_open self t) = ordinal t + 1
     \<and> weekday (Trader_next_open self t) = 6
     \<and> ordinal (Trader_next_open self (Trader_next_open self t)) = ordinal t + 2
     \<and> weekday (Trader_next_open self (Trader_next_open self t)) = 0"
  proof (intro impI)
    assume h: "weekday t = 5 \<and> \<not> quick_test self"
    then have s1: "Trader_next_open self t = plus_days t 1"
      and s2: "Trader_next_open self (plus_days t 1) = plus_days t 2"
      using t1 t2 by simp_all
    have "ordinal (plus_days t 1) = ordinal t + 1" and "ordinal (plus_days t 2) = ordinal t + 2"
      by (simp_all add: plus_days_def)
    with sat h show "ordinal (Trader_next_open self t) = ordinal t + 1
     \<and> weekday (Trader_next_open self t) = 6
     \<and> ordinal (Trader_next_open self (Trader_next_open self t)) = ordinal t + 2
     \<and> weekday (Trader_next_open self (Trader_next_open self t)) = 0"
      unfolding s1 s2 by simp
  qed
  have m1: "run_trade_loop_wake t = Some (replace_0930 (plus_days t 1))" if "weekday t = 5"
    using that by (simp add: run_trade_loop_wake_def)
  have m2: "run_trade_loop_wake (replace_0930 (plus_days t 1)) = Some (replace_0930 (plus_days t 2))"
    if "weekday t = 5"
    using sat [OF that] wr [of "plus_days t 1"]
    by (simp add: run_trade_loop_wake_def) (simp add: replace_0930_def plus_days_def)
  have b: "weekday t = 5 \<longrightarrow>
       run_trade_loop_wake t = Some (replace_0930 (plus_days t 1))
     \<and> weekday (replace_0930 (plus_days t 1)) = 6
     \<and> run_trade_loop_wake (replace_0930 (plus_days t 1)) = Some (replace_0930 (plus_days t 2))
     \<and> weekday (replace_0930 (plus_days t 2)) = 0
     \<and> time_of (replace_0930 (plus_days t 2)) = (9, 30, 0, microsecond t)"
    using sat m1 m2 by (auto simp: wr) (simp add: time_of_def replace_0930_def plus_days_def)
  have c: "weekday t < 5 \<and> hour t = 8 \<and> minute t = 0 \<and> \<not> quick_test self \<longrightarrow>
       Trader_next_open self t = t\<lparr>hour := 9, minute := 30, second := 0\<rparr>"
    by (simp add: Trader_next_open_def Trader_clock_branch_def time_of_def replace_0930_def)
  have d: "weekday t < 5 \<and> hour t = 8 \<and> minute t = 0 \<longrightarrow>
       run_trade_loop_wake t = Some (t\<lparr>hour := 9, minute := 30, second := 0\<rparr>)"
    by (simp add: run_trade_loop_wake_def time_of_def replace_0930_def)
  show ?thesis
    using a b c d by blast
qed

theorem next_wake_witness:
  "ordinal (Trader_next_open (trader_voo 300) saturday_1000) = 738892
 \<and> weekday (Trader_next_open (trader_voo 300) (Trader_next_open (trader_voo 300) saturday_1000)) = 0
 \<and> run_trade_loop_wake saturday_1000 =
      Some \<lparr>ordinal = 738892, hour = 9, minute = 30, second = 0, microsecond = 0\<rparr>
 \<and> run_trade_loop_wake \<lparr>ordinal = 738892, hour = 9, minute = 30, second = 0, microsecond = 0\<rparr> =
      Some \<lparr>ordinal = 738893, hour = 9, minute = 30, second = 0, microsecond = 0\<rparr>
 \<and> Trader_next_open (trader_voo 300) monday_0800 =
      \<lparr>ordinal = 738893, hour = 9, minute = 30, second = 0, microsecond = 0\<rparr>
 \<and> run_trade_loop_wake monday_0800 =
      Some \<lparr>ordinal = 738893, hour = 9, minute = 30, second = 0, microsecond = 0\<rparr>"
proof -
  have h: "weekday saturday_1000 = 5" "weekday monday_0800 < 5" "\<not> quick_test (trader_voo 300)"
    "hour monday_0800 = 8" "minute monday_0800 = 0"
    by (simp_all add: weekday_def saturday_1000_def monday_0800_def trader_voo_def)
  have r: "replace_0930 (plus_days saturday_1000 (Suc 0)) =
        \<lparr>ordinal = 738892, hour = 9, minute = 30, second = 0, microsecond = 0\<rparr>"
      "replace_0930 (plus_days saturday_1000 2) =
        \<lparr>ordinal = 738893, hour = 9, minute = 30, second = 0, microsecond = 0\<rparr>"
      "monday_0800\<lparr>hour := 9, minute := 30, second := 0\<rparr> =
        \<lparr>ordinal = 738893, hour = 9, minute = 30, second = 0, microsecond = 0\<rparr>"
      "ordinal saturday_1000 = 738891"
    by (simp_all add: replace_0930_def plus_days_def saturday_1000_def monday_0800_def)
  show ?thesis
    using next_wake [where t = saturday_1000 and self = "trader_voo 300"]
      next_wake [where t = monday_0800 and self = "trader_voo 300"]
    by (simp add: h r)
qed

text \<open>On Saturday 2024-01-06 at 10:00 the next wake of the class is Sunday at 10:00 and
  that of \<open>main.py\<close> is Sunday at 09:30; neither is the Monday.\<close>

theorem saturday_wakes_sunday:
  "weekday saturday_1000 = 5
  \<and> Trader_next_open (trader_voo 300) saturday_1000 =
      \<lparr>ordinal = 738892, hour = 10, minute = 0, second = 0, microsecond = 0\<rparr>
  \<and> run_trade_loop_wake saturday_1000 =
      Some \<lparr>ordinal = 738892, hour = 9, minute = 30, second = 0, microsecond = 0\<rparr>
  \<and> weekday \<lparr>ordinal = 738892, hour = 9, minute = 30, second = 0, microsecond = 0\<rparr> = 6
  \<and> weekday \<lparr>ordinal = 738892, hour = 10, minute = 0, second = 0, microsecond = 0\<rparr> = 6"
  by (simp add: weekday_def saturday_1000_def Trader_next_open_def Trader_clock_branch_def
      trader_voo_def run_trade_loop_wake_def plus_days_def replace_0930_def)

end
